theory Spec2Isabelle
  imports Complex_Main
begin

section \<open>Animation parameters and their resolver\<close>

text \<open>
  The engine is modelled on finite numbers, as reals: the rounding of IEEE doubles is not
  part of the model. Where \<open>NaN\<close> and the infinities make a difference, in the cache key
  of the resolver and in the clamp of the calculated target, the code is modelled again
  on JavaScript numbers (section \<open>JavaScript numbers\<close> below), and the model on reals is
  shown to be its restriction to finite numbers.
\<close>

text \<open>\<open>Required<SpringAnimation>\<close>: a fully populated parameter triple.\<close>

record spring =
  damping :: real
  stiffness :: real
  mass :: real

definition DEFAULT_SPRING_ANIMATION :: spring where
  "DEFAULT_SPRING_ANIMATION = \<lparr>damping = 7 / 10, stiffness = 5 / 100, mass = 125 / 100\<rparr>"

text \<open>
  What \<open>mergeAnimations\<close> may be handed: \<open>Animation | boolean | undefined\<close>, where
  \<open>Animation = ScrollBehavior | SpringAnimation\<close>. An object source carries the three
  optional numeric fields.
\<close>

datatype animationSource =
    SInstant
  | SSmooth
  | SAuto
  | SBool bool
  | SUndefined
  | SObject "real option" "real option" "real option"

text \<open>The operator \<open>a ?? b\<close> on an optional number.\<close>

definition nullish :: "real option \<Rightarrow> real \<Rightarrow> real" where
  "nullish a b = (case a of None \<Rightarrow> b | Some x \<Rightarrow> x)"

text \<open>The body of the \<open>for\<close> loop of \<open>mergeAnimations\<close>, on the pair \<open>(result, instant)\<close>.\<close>

fun mergeLoop :: "spring \<times> bool \<Rightarrow> animationSource list \<Rightarrow> spring \<times> bool" where
  "mergeLoop (result, instant) [] = (result, instant)"
| "mergeLoop (result, instant) (SInstant # rest) = mergeLoop (result, True) rest"
| "mergeLoop (result, instant) (SObject d s m # rest) =
     mergeLoop (\<lparr>damping = nullish d (damping result),
                 stiffness = nullish s (stiffness result),
                 mass = nullish m (mass result)\<rparr>, False) rest"
| "mergeLoop (result, instant) (_ # rest) = mergeLoop (result, instant) rest"

text \<open>
  Objects have identity. The store holds the fields of every allocated parameter object,
  the set of frozen objects, the module-level \<open>animationCache\<close> and the next free address.
  The cache key \<open>JSON.stringify(result)\<close> lists the three fields in a fixed order: on
  finite numbers it tells triples apart, so here the key is the triple itself. The
  resolver on JavaScript numbers, where \<open>NaN\<close> and the infinities are written as \<open>null\<close>,
  is \<open>mergeAnimationsNumber\<close> below.
\<close>

record store =
  heap :: "nat \<Rightarrow> spring option"
  frozen :: "nat set"
  animationCache :: "spring \<Rightarrow> nat option"
  fresh :: nat

definition emptyStore :: store where
  "emptyStore = \<lparr>heap = (\<lambda>_. None), frozen = {}, animationCache = (\<lambda>_. None), fresh = 0\<rparr>"

text \<open>A resolved behavior: the sentinel \<open>"instant"\<close> or a reference to a parameter object.\<close>

datatype behavior = Instant | Spring nat

definition mergeAnimations :: "animationSource list \<Rightarrow> store \<Rightarrow> behavior \<times> store" where
  "mergeAnimations animations st =
     (let r = fresh st;
          (result, instant) = mergeLoop (DEFAULT_SPRING_ANIMATION, False) animations;
          st1 = st\<lparr>heap := (heap st)(r \<mapsto> result), fresh := Suc r\<rparr>;
          key = result;
          st2 = (if animationCache st1 key = None
                 then st1\<lparr>animationCache := (animationCache st1)(key \<mapsto> r),
                          frozen := insert r (frozen st1)\<rparr>
                 else st1)
      in (if instant then Instant else Spring (the (animationCache st2 key)), st2))"

text \<open>The triple a source list resolves to, and whether it resolves to the sentinel.\<close>

definition resolvedTriple :: "animationSource list \<Rightarrow> spring" where
  "resolvedTriple animations = fst (mergeLoop (DEFAULT_SPRING_ANIMATION, False) animations)"

definition resolvedInstant :: "animationSource list \<Rightarrow> bool" where
  "resolvedInstant animations = snd (mergeLoop (DEFAULT_SPRING_ANIMATION, False) animations)"


section \<open>The page and the hook's state\<close>

text \<open>An \<open>HTMLElement\<close>, as far as the hook reads and writes it.\<close>

record element =
  elemId :: nat
  scrollTop :: real
  scrollHeight :: real
  clientHeight :: real

text \<open>
  A selection as \<open>isSelecting\<close> sees it: whether the range's common ancestor contains the
  scroll element, and whether the scroll element contains the common ancestor.
\<close>

record selectionRange =
  ancestorContainsScroll :: bool
  scrollContainsAncestor :: bool

text \<open>
  Everything outside the hook: the two refs, the document, the window, the module-level
  \<open>mouseDown\<close> flag and the current selection (\<open>None\<close> when \<open>getSelection()\<close> is null or
  has no range). \<open>settle e v\<close> is the platform's answer to a write of \<open>v\<close> to the scroll
  offset of \<open>e\<close>: the offset the surface then reports. The source does not determine it,
  so it is a parameter of the page.
\<close>

record page =
  scrollRef :: "element option"
  contentRef :: "nat option"
  documentElement :: element
  body :: element
  scrollY :: real
  innerHeight :: real
  mouseDown :: bool
  selection :: "selectionRange option"
  settle :: "element \<Rightarrow> real \<Rightarrow> real"

datatype scrollMode = ElementMode | DocumentMode

text \<open>
  \<open>StickToBottomOptions\<close>. The custom target resolver receives the natural target and the
  context elements (the scroll element and the content element).
\<close>

record options =
  optDamping :: "real option"
  optStiffness :: "real option"
  optMass :: "real option"
  resize :: animationSource
  initial :: animationSource
  targetScrollTopOption :: "(real \<Rightarrow> element option \<Rightarrow> nat option \<Rightarrow> real) option"

text \<open>The options object handed to \<open>mergeAnimations\<close> as its first source.\<close>

definition optionsSource :: "options \<Rightarrow> animationSource" where
  "optionsSource opts = SObject (optDamping opts) (optStiffness opts) (optMass opts)"

record animation =
  behavior :: behavior
  ignoreEscapes :: bool
  promise :: nat

text \<open>
  \<open>StickToBottomState\<close> with its surroundings: the stored fields of the state record, the
  closure variable \<open>lastCalculation\<close> of its getters, the React state \<open>isNearBottom\<close>
  (\<open>escapedFromLock\<close> and \<open>isAtBottom\<close> are written to the record and to React state by
  the same setter, so one field stands for both), the options of the latest render, the
  scroll mode, the page, the parameter-object store, a counter naming promises, and
  \<open>previousHeight\<close> of the resize observer's closure.
\<close>

record hook =
  lastScrollTop :: "real option"
  ignoreScrollToTop :: "real option"
  animation :: "animation option"
  lastTick :: "real option"
  velocity :: real
  accumulated :: real
  escapedFromLock :: bool
  isAtBottom :: bool
  resizeDifference :: real
  lastCalculation :: "(real \<times> real) option"
  isNearBottomState :: bool
  currentOptions :: options
  mode :: scrollMode
  env :: page
  animations :: store
  promiseCount :: nat
  previousHeight :: "real option"

definition STICK_TO_BOTTOM_OFFSET_PX :: real where
  "STICK_TO_BOTTOM_OFFSET_PX = 70"

definition SIXTY_FPS_INTERVAL_MS :: real where
  "SIXTY_FPS_INTERVAL_MS = 1000 / 60"

definition RETAIN_ANIMATION_DURATION_MS :: real where
  "RETAIN_ANIMATION_DURATION_MS = 350"

text \<open>The state the first render creates.\<close>

definition initialState :: "options \<Rightarrow> scrollMode \<Rightarrow> page \<Rightarrow> store \<Rightarrow> hook" where
  "initialState opts m pg st =
     \<lparr>lastScrollTop = None, ignoreScrollToTop = None, animation = None, lastTick = None,
      velocity = 0, accumulated = 0, escapedFromLock = False,
      isAtBottom = (initial opts \<noteq> SBool False), resizeDifference = 0,
      lastCalculation = None, isNearBottomState = False, currentOptions = opts, mode = m,
      env = pg, animations = st, promiseCount = 0, previousHeight = None\<rparr>"

subsection \<open>Geometry accessors\<close>

definition usesDocumentElement :: "page \<Rightarrow> bool" where
  "usesDocumentElement pg =
     (scrollHeight (documentElement pg) > clientHeight (documentElement pg)
      \<or> scrollTop (documentElement pg) > 0)"

definition getDocumentScrollElement :: "page \<Rightarrow> element" where
  "getDocumentScrollElement pg =
     (if usesDocumentElement pg then documentElement pg else body pg)"

definition isSelecting :: "hook \<Rightarrow> bool" where
  "isSelecting h =
     (if \<not> mouseDown (env h) then False
      else case selection (env h) of
             None \<Rightarrow> False
           | Some sel \<Rightarrow>
               (case scrollRef (env h) of
                  None \<Rightarrow> False
                | Some _ \<Rightarrow> ancestorContainsScroll sel \<or> scrollContainsAncestor sel))"

definition setIsAtBottom :: "bool \<Rightarrow> hook \<Rightarrow> hook" where
  "setIsAtBottom b h = h\<lparr>isAtBottom := b\<rparr>"

definition setEscapedFromLock :: "bool \<Rightarrow> hook \<Rightarrow> hook" where
  "setEscapedFromLock b h = h\<lparr>escapedFromLock := b\<rparr>"

definition setIsNearBottom :: "bool \<Rightarrow> hook \<Rightarrow> hook" where
  "setIsNearBottom b h = h\<lparr>isNearBottomState := b\<rparr>"

definition getScrollElement :: "hook \<Rightarrow> element option" where
  "getScrollElement h =
     (if mode h = DocumentMode then Some (getDocumentScrollElement (env h))
      else scrollRef (env h))"

definition getScrollTop :: "hook \<Rightarrow> real" where
  "getScrollTop h =
     (if mode h = DocumentMode then scrollY (env h)
      else case scrollRef (env h) of None \<Rightarrow> 0 | Some e \<Rightarrow> scrollTop e)"

text \<open>
  \<open>window.scrollTo\<close> is the platform's: the document's scroll element and \<open>scrollY\<close> take
  the settled offset.
\<close>

definition windowScrollTo :: "real \<Rightarrow> page \<Rightarrow> page" where
  "windowScrollTo v pg =
     (let y = settle pg (getDocumentScrollElement pg) v
      in if usesDocumentElement pg
         then pg\<lparr>documentElement := (documentElement pg)\<lparr>scrollTop := y\<rparr>, scrollY := y\<rparr>
         else pg\<lparr>body := (body pg)\<lparr>scrollTop := y\<rparr>, scrollY := y\<rparr>)"

definition setScrollTop :: "real \<Rightarrow> hook \<Rightarrow> hook" where
  "setScrollTop v h =
     (if mode h = DocumentMode
      then (let pg = windowScrollTo v (env h)
            in h\<lparr>env := pg, ignoreScrollToTop := Some (scrollTop (getDocumentScrollElement pg))\<rparr>)
      else case scrollRef (env h) of
             None \<Rightarrow> h
           | Some e \<Rightarrow>
               (let e1 = e\<lparr>scrollTop := settle (env h) e v\<rparr>
                in h\<lparr>env := (env h)\<lparr>scrollRef := Some e1\<rparr>,
                     ignoreScrollToTop := Some (scrollTop e1)\<rparr>))"

definition getScrollDimensions :: "hook \<Rightarrow> real \<times> real" where
  "getScrollDimensions h =
     (if mode h = DocumentMode
      then (scrollHeight (getDocumentScrollElement (env h)), innerHeight (env h))
      else (case scrollRef (env h) of None \<Rightarrow> 0 | Some e \<Rightarrow> scrollHeight e,
            case scrollRef (env h) of None \<Rightarrow> 0 | Some e \<Rightarrow> clientHeight e))"

subsection \<open>The derived fields of the state record\<close>

definition targetScrollTop :: "hook \<Rightarrow> real" where
  "targetScrollTop h =
     (let (sh, ch) = getScrollDimensions h
      in if mode h = ElementMode \<and> contentRef (env h) = None then 0
         else max 0 (sh - 1 - ch))"

text \<open>
  The getter writes \<open>lastCalculation\<close>, so it returns the state with the value. The
  animation-frame callback it requests is \<open>clearLastCalculation\<close>. Here the resolver
  returns a finite number; the getter for a resolver that may return \<open>NaN\<close> or an infinity
  is \<open>calculatedTargetScrollTopNumber\<close> below.
\<close>

definition calculatedTargetScrollTop :: "hook \<Rightarrow> real \<times> hook" where
  "calculatedTargetScrollTop h =
     (let t = targetScrollTop h;
          scrollElement = getScrollElement h
      in if mode h = ElementMode \<and> contentRef (env h) = None then (0, h)
         else if mode h = DocumentMode \<and> scrollElement = None then (0, h)
         else case targetScrollTopOption (currentOptions h) of
                None \<Rightarrow> (t, h)
              | Some resolver \<Rightarrow>
                  (case lastCalculation h of
                     Some (lt, lc) \<Rightarrow>
                       if lt = t then (lc, h)
                       else (let c = max (min (resolver t scrollElement (contentRef (env h))) t) 0
                             in (c, h\<lparr>lastCalculation := Some (t, c)\<rparr>))
                   | None \<Rightarrow>
                       (let c = max (min (resolver t scrollElement (contentRef (env h))) t) 0
                        in (c, h\<lparr>lastCalculation := Some (t, c)\<rparr>))))"

definition clearLastCalculation :: "hook \<Rightarrow> hook" where
  "clearLastCalculation h = h\<lparr>lastCalculation := None\<rparr>"

definition scrollDifference :: "hook \<Rightarrow> real \<times> hook" where
  "scrollDifference h =
     (let (c, h1) = calculatedTargetScrollTop h in (c - getScrollTop h1, h1))"

definition isNearBottom :: "hook \<Rightarrow> bool \<times> hook" where
  "isNearBottom h =
     (let (d, h1) = scrollDifference h in (d \<le> STICK_TO_BOTTOM_OFFSET_PX, h1))"


section \<open>The animator\<close>

datatype scrollBehavior = BehaviorAuto | BehaviorInstant | BehaviorSmooth

definition ofScrollBehavior :: "scrollBehavior \<Rightarrow> animationSource" where
  "ofScrollBehavior s =
     (case s of BehaviorAuto \<Rightarrow> SAuto | BehaviorInstant \<Rightarrow> SInstant | BehaviorSmooth \<Rightarrow> SSmooth)"

datatype waitOption = WaitUndefined | WaitBool bool | WaitMs real

text \<open>
  A \<open>duration\<close> that is a promise settles at a time of its own: \<open>durationElapsed\<close> stays
  undefined until then.
\<close>

datatype durationOption = DurationUndefined | DurationMs real | DurationPromise

record scrollOptions =
  optAnimation :: animationSource
  optWait :: waitOption
  optIgnoreEscapes :: "bool option"
  preserveScrollPosition :: bool
  optDuration :: durationOption

datatype scrollToBottomOptions = OptString scrollBehavior | OptObject scrollOptions

definition defaultScrollOptions :: scrollOptions where
  "defaultScrollOptions =
     \<lparr>optAnimation = SUndefined, optWait = WaitUndefined, optIgnoreEscapes = None,
      preserveScrollPosition = False, optDuration = DurationUndefined\<rparr>"

text \<open>\<open>Number(scrollOptions.wait) || 0\<close>.\<close>

definition waitMs :: "waitOption \<Rightarrow> real" where
  "waitMs w =
     (case w of WaitUndefined \<Rightarrow> 0 | WaitBool b \<Rightarrow> (if b then 1 else 0) | WaitMs n \<Rightarrow> n)"

text \<open>
  The variables one call of \<open>scrollToBottom\<close> closes over, with the promise of the frame
  that \<open>next\<close> requested last.
\<close>

record loop =
  loopBehavior :: behavior
  loopIgnoreEscapes :: bool
  waitElapsed :: real
  durationElapsed :: "real option"
  startTarget :: real
  loopPromise :: nat

text \<open>
  What a call of \<open>scrollToBottom\<close> hands back: the promise of the animation on record, or
  the promise of a loop it has just started.
\<close>

datatype scrollResult = Existing nat | Started loop

text \<open>\<open>next()\<close> requests an animation frame: a new promise for the same loop.\<close>

definition "next" :: "loop \<Rightarrow> hook \<Rightarrow> loop \<times> hook" where
  "next l h = (l\<lparr>loopPromise := promiseCount h\<rparr>, h\<lparr>promiseCount := Suc (promiseCount h)\<rparr>)"

definition animationBehaviorIs :: "behavior \<Rightarrow> hook \<Rightarrow> bool" where
  "animationBehaviorIs b h = (case animation h of None \<Rightarrow> False | Some a \<Rightarrow> behavior a = b)"

definition scrollToBottom :: "real \<Rightarrow> scrollToBottomOptions \<Rightarrow> hook \<Rightarrow> scrollResult \<times> hook" where
  "scrollToBottom now scrollOptions0 h =
     (let scrollOptions =
            (case scrollOptions0 of
               OptString s \<Rightarrow> defaultScrollOptions\<lparr>optAnimation := ofScrollBehavior s\<rparr>
             | OptObject opts \<Rightarrow> opts);
          h1 = (if \<not> preserveScrollPosition scrollOptions then setIsAtBottom True h else h);
          we = now + waitMs (optWait scrollOptions);
          (b, st) = mergeAnimations [optionsSource (currentOptions h1), optAnimation scrollOptions]
                      (animations h1);
          h2 = h1\<lparr>animations := st\<rparr>;
          ie = (case optIgnoreEscapes scrollOptions of None \<Rightarrow> False | Some x \<Rightarrow> x);
          (target, h3) = calculatedTargetScrollTop h2;
          de = (case optDuration scrollOptions of
                  DurationPromise \<Rightarrow> None
                | DurationMs d \<Rightarrow> Some (we + d)
                | DurationUndefined \<Rightarrow> Some (we + 0));
          h4 = (if optWait scrollOptions \<noteq> WaitBool True then h3\<lparr>animation := None\<rparr> else h3)
      in if animationBehaviorIs b h4 then (Existing (promise (the (animation h4))), h4)
         else (let (l, h5) = next \<lparr>loopBehavior = b, loopIgnoreEscapes = ie, waitElapsed = we,
                                    durationElapsed = de, startTarget = target, loopPromise = 0\<rparr> h4
               in (Started l, h5)))"

text \<open>The \<open>finally\<close> callback of a \<open>duration\<close> promise.\<close>

definition durationSettled :: "real \<Rightarrow> loop \<Rightarrow> loop" where
  "durationSettled now l = l\<lparr>durationElapsed := Some now\<rparr>"

text \<open>A resolved behavior passed on as the \<open>animation\<close> option of a further call.\<close>

definition behaviorSource :: "store \<Rightarrow> behavior \<Rightarrow> animationSource" where
  "behaviorSource st b =
     (case b of
        Instant \<Rightarrow> SInstant
      | Spring r \<Rightarrow>
          (case heap st r of
             None \<Rightarrow> SUndefined
           | Some sp \<Rightarrow> SObject (Some (damping sp)) (Some (stiffness sp)) (Some (mass sp))))"

text \<open>
  The spring branch of a frame, for the parameters \<open>sp\<close> of the loop's behavior, the
  frame's \<open>tickDelta\<close> and the offset \<open>scrollTop0\<close> read at the start of the frame.
\<close>

definition springStep :: "spring \<Rightarrow> real \<Rightarrow> real \<Rightarrow> hook \<Rightarrow> hook" where
  "springStep sp tickDelta scrollTop0 h =
     (let (diff, h1) = scrollDifference h;
          h2 = h1\<lparr>velocity := (damping sp * velocity h1 + stiffness sp * diff) / mass sp\<rparr>;
          h3 = h2\<lparr>accumulated := accumulated h2 + velocity h2 * tickDelta\<rparr>;
          h4 = setScrollTop (getScrollTop h3 + accumulated h3) h3
      in if getScrollTop h4 \<noteq> scrollTop0 then h4\<lparr>accumulated := 0\<rparr> else h4)"

text \<open>
  How one frame of a loop ends: the promise settles with a value, the loop requests its
  next frame, or the promise follows a further call of \<open>scrollToBottom\<close>.
\<close>

datatype outcome = Resolved bool | Continue loop | Chained scrollResult

definition again :: "loop \<Rightarrow> hook \<Rightarrow> outcome \<times> hook" where
  "again l h = (let (l1, h1) = next l h in (Continue l1, h1))"

text \<open>
  The callback of one animation frame of the loop \<open>l\<close>, at \<open>Date.now() = now\<close> and
  \<open>performance.now() = tick\<close>. One frame reads the clock as one instant. A behavior that
  is a reference without an object does not occur; the frame then moves nothing.
\<close>

definition frame :: "real \<Rightarrow> real \<Rightarrow> loop \<Rightarrow> hook \<Rightarrow> outcome \<times> hook" where
  "frame now tick l h =
     (if \<not> isAtBottom h then (Resolved False, h\<lparr>animation := None\<rparr>)
      else
        (let scrollTop0 = getScrollTop h;
             tickDelta = (tick - (case lastTick h of None \<Rightarrow> tick | Some t \<Rightarrow> t))
                           / SIXTY_FPS_INTERVAL_MS;
             h1 = (case animation h of
                     None \<Rightarrow> h\<lparr>animation := Some \<lparr>behavior = loopBehavior l,
                                   ignoreEscapes = loopIgnoreEscapes l, promise = loopPromise l\<rparr>\<rparr>
                   | Some _ \<Rightarrow> h);
             h2 = (if animationBehaviorIs (loopBehavior l) h1 then h1\<lparr>lastTick := Some tick\<rparr> else h1)
         in if isSelecting h2 then again l h2
            else if waitElapsed l > now then again l h2
            else
              (let (c, h3) = calculatedTargetScrollTop h2
               in if scrollTop0 < min (startTarget l) c
                  then
                    (if animationBehaviorIs (loopBehavior l) h3
                     then (case loopBehavior l of
                             Instant \<Rightarrow>
                               (let (c1, h4) = calculatedTargetScrollTop h3
                                in again l (setScrollTop c1 h4))
                           | Spring r \<Rightarrow>
                               (case heap (animations h3) r of
                                  None \<Rightarrow> again l h3
                                | Some sp \<Rightarrow> again l (springStep sp tickDelta scrollTop0 h3)))
                     else again l h3)
                  else if (case durationElapsed l of None \<Rightarrow> False | Some d \<Rightarrow> d > now)
                  then (let (c1, h4) = calculatedTargetScrollTop h3
                        in again (l\<lparr>startTarget := c1\<rparr>) h4)
                  else
                    (let h4 = h3\<lparr>animation := None\<rparr>;
                         (c1, h5) = calculatedTargetScrollTop h4
                     in if getScrollTop h5 < c1
                        then
                          (let (b, st) = mergeAnimations
                                           [optionsSource (currentOptions h5), resize (currentOptions h5)]
                                           (animations h5);
                               h6 = h5\<lparr>animations := st\<rparr>;
                               remaining = (case durationElapsed l of
                                              None \<Rightarrow> 0
                                            | Some d \<Rightarrow> max 0 (d - now));
                               (res, h7) = scrollToBottom now
                                 (OptObject \<lparr>optAnimation = behaviorSource st b,
                                             optWait = WaitUndefined,
                                             optIgnoreEscapes = Some (loopIgnoreEscapes l),
                                             preserveScrollPosition = False,
                                             optDuration = (if remaining = 0 then DurationUndefined
                                                            else DurationMs remaining)\<rparr>) h6
                           in (Chained res, h7))
                        else (Resolved (isAtBottom h5), h5)))))"

text \<open>The animation-frame callback requested when a frame's promise has settled.\<close>

definition afterSettled :: "hook \<Rightarrow> hook" where
  "afterSettled h = (if animation h = None then h\<lparr>lastTick := None, velocity := 0\<rparr> else h)"


section \<open>Commands and notifications\<close>

definition stopScroll :: "hook \<Rightarrow> hook" where
  "stopScroll h = setIsAtBottom False (setEscapedFromLock True h)"

text \<open>What an event can have as its target, and what \<open>scrollRef.current\<close> is as a node.\<close>

datatype node = NodeDocument | NodeDocumentElement | NodeBody | NodeElement nat

definition scrollRefNode :: "hook \<Rightarrow> node option" where
  "scrollRefNode h = map_option (\<lambda>e. NodeElement (elemId e)) (scrollRef (env h))"

text \<open>What the timeout of \<open>handleScroll\<close> closes over.\<close>

record scrollCapture =
  capturedLastScrollTop :: real
  capturedIgnoreScrollToTop :: "real option"

text \<open>
  The synchronous part of \<open>handleScroll\<close> for an event with the given target: the new
  state, and the capture of the timeout it sets (\<open>None\<close> when it sets none).
\<close>

definition handleScroll :: "node option \<Rightarrow> hook \<Rightarrow> hook \<times> scrollCapture option" where
  "handleScroll target h =
     (if target \<noteq> scrollRefNode h then (h, None)
      else
        (let scrollTop0 = getScrollTop h;
             ignore = ignoreScrollToTop h;
             last0 = (case lastScrollTop h of None \<Rightarrow> scrollTop0 | Some x \<Rightarrow> x);
             currentScrollTop = getScrollTop h;
             h1 = h\<lparr>lastScrollTop := Some currentScrollTop\<rparr>;
             h2 = h1\<lparr>ignoreScrollToTop := None\<rparr>;
             last1 = (case ignore of
                        None \<Rightarrow> last0
                      | Some i \<Rightarrow> if i \<noteq> 0 \<and> i > currentScrollTop then i else last0);
             (near, h3) = isNearBottom h2;
             h4 = setIsNearBottom near h3
         in (h4, Some \<lparr>capturedLastScrollTop = last1, capturedIgnoreScrollToTop = ignore\<rparr>)))"

definition ignoreEscapesActive :: "hook \<Rightarrow> bool" where
  "ignoreEscapesActive h = (case animation h of None \<Rightarrow> False | Some a \<Rightarrow> ignoreEscapes a)"

text \<open>The timeout of \<open>handleScroll\<close>.\<close>

definition handleScrollTimeout :: "scrollCapture \<Rightarrow> hook \<Rightarrow> hook" where
  "handleScrollTimeout cap h =
     (let currentScrollTop = getScrollTop h
      in if resizeDifference h \<noteq> 0 \<or> Some currentScrollTop = capturedIgnoreScrollToTop cap
         then h
         else if isSelecting h then setIsAtBottom False (setEscapedFromLock True h)
         else
           (let isScrollingDown = currentScrollTop > capturedLastScrollTop cap;
                isScrollingUp = currentScrollTop < capturedLastScrollTop cap
            in if ignoreEscapesActive h then setScrollTop (capturedLastScrollTop cap) h
               else
                 (let h1 = (if isScrollingUp
                            then setIsAtBottom False (setEscapedFromLock True h) else h);
                      h2 = (if isScrollingDown then setEscapedFromLock False h1 else h1)
                  in if escapedFromLock h2 then h2
                     else (let (near, h3) = isNearBottom h2
                           in if near then setIsAtBottom True h3 else h3))))"

text \<open>
  \<open>handleWheel\<close>. In element mode the loop climbs from the event's target through its
  ancestors, given here as the list of nodes from the target upwards.
\<close>

definition wheelEscape :: "real \<Rightarrow> hook \<Rightarrow> hook" where
  "wheelEscape deltaY h =
     (let (sh, ch) = getScrollDimensions h
      in if deltaY < 0 \<and> sh > ch \<and> \<not> ignoreEscapesActive h
         then setIsAtBottom False (setEscapedFromLock True h) else h)"

fun wheelClimb :: "real \<Rightarrow> node list \<Rightarrow> hook \<Rightarrow> hook" where
  "wheelClimb deltaY [] h = h"
| "wheelClimb deltaY (n # ancestors) h =
     (if n = NodeBody \<or> n = NodeDocumentElement then h
      else if Some n = scrollRefNode h then wheelEscape deltaY h
      else wheelClimb deltaY ancestors h)"

definition handleWheel :: "real \<Rightarrow> node list \<Rightarrow> hook \<Rightarrow> hook" where
  "handleWheel deltaY path h =
     (if mode h = DocumentMode
      then (if deltaY < 0 \<and> \<not> ignoreEscapesActive h
            then (let (sh, ch) = getScrollDimensions h
                  in if sh > ch then setIsAtBottom False (setEscapedFromLock True h) else h)
            else h)
      else wheelClimb deltaY path h)"

text \<open>The effect that runs in document mode.\<close>

definition documentModeEffect :: "hook \<Rightarrow> hook" where
  "documentModeEffect h =
     (if mode h = DocumentMode
      then (let (near, h1) = isNearBottom h;
                h2 = setIsNearBottom near h1
            in if escapedFromLock h2 then h2
               else (let (near1, h3) = isNearBottom h2
                     in if near1 then setIsAtBottom True h3 else h3))
      else h)"

text \<open>
  The resize observer's callback for an entry of the given height, at \<open>Date.now() = now\<close>.
  It returns what its call of \<open>scrollToBottom\<close> handed back, if it made one, and the
  difference its deferred reset closes over.
\<close>

definition resizeCallback :: "real \<Rightarrow> real \<Rightarrow> hook \<Rightarrow> hook \<times> scrollResult option \<times> real option" where
  "resizeCallback now height h =
     (if contentRef (env h) = None then (h, None, None)
      else
        (let difference = height - (case previousHeight h of None \<Rightarrow> height | Some p \<Rightarrow> p);
             h1 = h\<lparr>resizeDifference := difference\<rparr>;
             currentScrollTop = getScrollTop h1;
             currentTargetScrollTop = targetScrollTop h1;
             h2 = (if currentScrollTop > currentTargetScrollTop
                   then setScrollTop currentTargetScrollTop h1 else h1);
             (near, h3) = isNearBottom h2;
             h4 = setIsNearBottom near h3;
             (res, h5) =
               (if difference \<ge> 0
                then
                  (let (b, st) = mergeAnimations
                                   [optionsSource (currentOptions h4),
                                    (case previousHeight h4 of
                                       None \<Rightarrow> initial (currentOptions h4)
                                     | Some p \<Rightarrow> if p \<noteq> 0 then resize (currentOptions h4)
                                                else initial (currentOptions h4))]
                                   (animations h4);
                       h41 = h4\<lparr>animations := st\<rparr>;
                       (r, h42) = scrollToBottom now
                         (OptObject \<lparr>optAnimation = behaviorSource st b,
                                     optWait = WaitBool True,
                                     optIgnoreEscapes = None,
                                     preserveScrollPosition = True,
                                     optDuration = (if b = Instant then DurationUndefined
                                                    else DurationMs RETAIN_ANIMATION_DURATION_MS)\<rparr>)
                         h41
                   in (Some r, h42))
                else
                  (let (near1, h41) = isNearBottom h4
                   in if near1 then (None, setIsAtBottom True (setEscapedFromLock False h41))
                      else (None, h41)));
             h6 = h5\<lparr>previousHeight := Some height\<rparr>
         in (h6, res, Some difference)))"

text \<open>The deferred reset of \<open>resizeDifference\<close>.\<close>

definition resizeReset :: "real \<Rightarrow> hook \<Rightarrow> hook" where
  "resizeReset difference h =
     (if resizeDifference h = difference then h\<lparr>resizeDifference := 0\<rparr> else h)"

text \<open>The ref callback of the content element: a new observer, with no previous height.\<close>

definition attachContent :: "nat option \<Rightarrow> hook \<Rightarrow> hook" where
  "attachContent content h = h\<lparr>env := (env h)\<lparr>contentRef := content\<rparr>, previousHeight := None\<rparr>"

text \<open>The flags the hook returns to its caller.\<close>

record returned =
  returnedIsAtBottom :: bool
  returnedIsNearBottom :: bool
  returnedEscapedFromLock :: bool

definition useStickToBottom :: "hook \<Rightarrow> returned" where
  "useStickToBottom h =
     \<lparr>returnedIsAtBottom = (isAtBottom h \<or> isNearBottomState h),
      returnedIsNearBottom = isNearBottomState h,
      returnedEscapedFromLock = escapedFromLock h\<rparr>"

section \<open>Runs of the engine\<close>

text \<open>
  Every callback runs to completion before the next one starts, so a run of the engine is
  a sequence of operations on the state. The page and the options change from outside,
  keeping the platform's \<open>settle\<close>. A frame or a timeout may be run for any closure: the
  runs below include every run of the hook.
\<close>

datatype operation =
    CallScrollToBottom real scrollToBottomOptions
  | CallStopScroll
  | AnimationFrame real real loop
  | AfterSettled
  | ClearLastCalculation
  | ScrollEvent "node option"
  | ScrollTimeout scrollCapture
  | WheelEvent real "node list"
  | DocumentModeEffect
  | ResizeEntry real real
  | ResizeReset real
  | AttachContent "nat option"
  | PageChange page
  | Render options

fun perform :: "operation \<Rightarrow> hook \<Rightarrow> hook" where
  "perform (CallScrollToBottom now scrollOptions) h = snd (scrollToBottom now scrollOptions h)"
| "perform CallStopScroll h = stopScroll h"
| "perform (AnimationFrame now tick l) h = snd (frame now tick l h)"
| "perform AfterSettled h = afterSettled h"
| "perform ClearLastCalculation h = clearLastCalculation h"
| "perform (ScrollEvent target) h = fst (handleScroll target h)"
| "perform (ScrollTimeout cap) h = handleScrollTimeout cap h"
| "perform (WheelEvent deltaY path) h = handleWheel deltaY path h"
| "perform DocumentModeEffect h = documentModeEffect h"
| "perform (ResizeEntry now height) h = fst (resizeCallback now height h)"
| "perform (ResizeReset difference) h = resizeReset difference h"
| "perform (AttachContent content) h = attachContent content h"
| "perform (PageChange pg) h = h\<lparr>env := pg\<lparr>settle := settle (env h)\<rparr>\<rparr>"
| "perform (Render opts) h = h\<lparr>currentOptions := opts\<rparr>"

fun run :: "operation list \<Rightarrow> hook \<Rightarrow> hook" where
  "run [] h = h"
| "run (ope # rest) h = run rest (perform ope h)"

section \<open>Concrete pages and states\<close>

text \<open>The usual answer of a browser to a write of the scroll offset: the value, clamped.\<close>

definition clampSettle :: "element \<Rightarrow> real \<Rightarrow> real" where
  "clampSettle e v = max 0 (min v (scrollHeight e - clientHeight e))"

definition emptyElement :: "nat \<Rightarrow> element" where
  "emptyElement n = \<lparr>elemId = n, scrollTop = 0, scrollHeight = 0, clientHeight = 0\<rparr>"

text \<open>A page whose scroll element is \<open>e\<close>, with a content element attached.\<close>

definition elementPage :: "element \<Rightarrow> page" where
  "elementPage e =
     \<lparr>scrollRef = Some e, contentRef = Some (Suc (elemId e)),
      documentElement = emptyElement 100, body = emptyElement 101,
      scrollY = 0, innerHeight = 0, mouseDown = False, selection = None,
      settle = clampSettle\<rparr>"

definition noOptions :: options where
  "noOptions =
     \<lparr>optDamping = None, optStiffness = None, optMass = None, resize = SUndefined,
      initial = SUndefined, targetScrollTopOption = None\<rparr>"

text \<open>A scroll element of height 500 showing content of height 1000, scrolled to 100.\<close>

definition tallElement :: element where
  "tallElement = \<lparr>elemId = 1, scrollTop = 100, scrollHeight = 1000, clientHeight = 500\<rparr>"

definition tallState :: hook where
  "tallState = initialState noOptions ElementMode (elementPage tallElement) emptyStore"

text \<open>The loop that \<open>scrollToBottom({ignoreEscapes: true})\<close> starts on \<open>tallState\<close> at time 0.\<close>

definition lockedLoop :: loop where
  "lockedLoop =
     \<lparr>loopBehavior = Spring 0, loopIgnoreEscapes = True, waitElapsed = 0,
      durationElapsed = Some 0, startTarget = 499, loopPromise = 0\<rparr>"

text \<open>The user holds the mouse button down over a selection that spans the scroll element,
  which has been scrolled up to 50.\<close>

definition selectingPage :: page where
  "selectingPage =
     (elementPage (tallElement\<lparr>scrollTop := 50\<rparr>))
       \<lparr>mouseDown := True,
        selection := Some \<lparr>ancestorContainsScroll = True, scrollContainsAncestor = False\<rparr>\<rparr>"

text \<open>An animation that ignores escapes has had its first frame; then the user selects and
  scrolls.\<close>

definition lockedScrolled :: hook where
  "lockedScrolled =
     run [CallScrollToBottom 0 (OptObject (defaultScrollOptions\<lparr>optIgnoreEscapes := Some True\<rparr>)),
          AnimationFrame 16 16 lockedLoop,
          PageChange selectingPage] tallState"

text \<open>The state after the synchronous part of the scroll notification.\<close>

definition lockedSelecting :: hook where
  "lockedSelecting = fst (handleScroll (Some (NodeElement 1)) lockedScrolled)"

text \<open>What that notification's timeout closes over.\<close>

definition lockedCapture :: scrollCapture where
  "lockedCapture = \<lparr>capturedLastScrollTop = 100, capturedIgnoreScrollToTop = Some 100\<rparr>"

text \<open>The same state with the mouse button released: no selection is in progress.\<close>

definition lockedUnselected :: hook where
  "lockedUnselected = lockedSelecting\<lparr>env := (env lockedSelecting)\<lparr>mouseDown := False\<rparr>\<rparr>"

text \<open>The loop that \<open>scrollToBottom()\<close> starts on \<open>tallState\<close> at time 0, and the state after
  its first frame.\<close>

definition springLoop :: loop where
  "springLoop =
     \<lparr>loopBehavior = Spring 0, loopIgnoreEscapes = False, waitElapsed = 0,
      durationElapsed = Some 0, startTarget = 499, loopPromise = 0\<rparr>"

definition animatingState :: hook where
  "animatingState =
     run [CallScrollToBottom 0 (OptObject defaultScrollOptions),
          AnimationFrame 16 16 springLoop] tallState"

text \<open>The loop that a second \<open>scrollToBottom()\<close> starts at time 20.\<close>

definition secondLoop :: loop where
  "secondLoop =
     \<lparr>loopBehavior = Spring 0, loopIgnoreEscapes = False, waitElapsed = 20,
      durationElapsed = Some 20, startTarget = 499, loopPromise = 2\<rparr>"

section \<open>Invariants of runs\<close>

text \<open>
  The operations that set \<open>isAtBottom\<close> whatever the state is: a call of
  \<open>scrollToBottom\<close> without \<open>preserveScrollPosition\<close>.
\<close>

definition forcesAtBottom :: "operation \<Rightarrow> bool" where
  "forcesAtBottom ope =
     (case ope of
        CallScrollToBottom now (OptString s) \<Rightarrow> True
      | CallScrollToBottom now (OptObject so) \<Rightarrow> \<not> preserveScrollPosition so
      | _ \<Rightarrow> False)"

text \<open>The state is not both at the bottom and escaped from the lock.\<close>

definition lockInvariant :: "hook \<Rightarrow> bool" where
  "lockInvariant h = (\<not> (isAtBottom h \<and> escapedFromLock h))"

text \<open>\<open>stop()\<close>, then \<open>scrollToBottom()\<close>, on \<open>tallState\<close>.\<close>

definition stoppedThenScrolled :: hook where
  "stoppedThenScrolled =
     run [CallStopScroll, CallScrollToBottom 0 (OptObject defaultScrollOptions)] tallState"

text \<open>A cached calculation lies between 0 and the target it was made for.\<close>

definition cacheWithinTarget :: "(real \<times> real) option \<Rightarrow> bool" where
  "cacheWithinTarget c = (case c of None \<Rightarrow> True | Some (lt, lc) \<Rightarrow> 0 \<le> lc \<and> lc \<le> lt)"



text \<open>
  A viewport of height 500 whose content is 500 tall, scrolled to the top; the options
  \<open>{animation: "instant"}\<close>; and the loop that call starts at time 0.
\<close>

definition flatElement :: element where
  "flatElement = \<lparr>elemId = 1, scrollTop = 0, scrollHeight = 500, clientHeight = 500\<rparr>"

definition flatState :: hook where
  "flatState = initialState noOptions ElementMode (elementPage flatElement) emptyStore"

definition instantOptions :: scrollOptions where
  "instantOptions = defaultScrollOptions\<lparr>optAnimation := SInstant\<rparr>"

definition instantLoop :: loop where
  "instantLoop =
     \<lparr>loopBehavior = Instant, loopIgnoreEscapes = False, waitElapsed = 0,
      durationElapsed = Some 0, startTarget = 0, loopPromise = 0\<rparr>"

text \<open>
  The loop of \<open>animatingState\<close> as its first frame left it, and \<open>animatingState\<close> on a
  surface that reports whole pixels only.
\<close>

definition secondFrameLoop :: loop where
  "secondFrameLoop = springLoop\<lparr>loopPromise := 1\<rparr>"

definition wholePixelState :: hook where
  "wholePixelState =
     animatingState\<lparr>env := (env animatingState)\<lparr>settle := (\<lambda>e v. of_int \<lfloor>clampSettle e v\<rfloor>)\<rparr>\<rparr>"

section \<open>JavaScript numbers\<close>

text \<open>
  A JavaScript number: a finite number, \<open>NaN\<close>, \<open>Infinity\<close> or \<open>-Infinity\<close>, with
  \<open>Math.min\<close>, \<open>Math.max\<close> and \<open><=\<close> as JavaScript has them: \<open>NaN\<close> passes through the
  first two and compares false with everything.
\<close>

datatype number = Finite real | NaN | PosInfinity | NegInfinity




text \<open>
  \<open>JSON.stringify\<close> writes a finite number as itself and \<open>NaN\<close> and the infinities as
  \<open>null\<close>.
\<close>

datatype json = JsonNull | JsonNumber real

fun stringifyNumber :: "number \<Rightarrow> json" where
  "stringifyNumber (Finite x) = JsonNumber x"
| "stringifyNumber a = JsonNull"

subsection \<open>The resolver on JavaScript numbers\<close>

text \<open>
  \<open>mergeAnimations\<close> once more, with the numeric fields as JavaScript numbers and the
  cache keyed by \<open>JSON.stringify(result)\<close>: the three fields, in their fixed order, as
  JSON values.
\<close>

record numberSpring =
  dampingNumber :: number
  stiffnessNumber :: number
  massNumber :: number

definition DEFAULT_SPRING_NUMBERS :: numberSpring where
  "DEFAULT_SPRING_NUMBERS =
     \<lparr>dampingNumber = Finite (7 / 10), stiffnessNumber = Finite (5 / 100),
      massNumber = Finite (125 / 100)\<rparr>"

datatype numberSource =
    NInstant
  | NSmooth
  | NAuto
  | NBool bool
  | NUndefined
  | NObject "number option" "number option" "number option"

definition nullishNumber :: "number option \<Rightarrow> number \<Rightarrow> number" where
  "nullishNumber a b = (case a of None \<Rightarrow> b | Some x \<Rightarrow> x)"

fun mergeLoopNumber :: "numberSpring \<times> bool \<Rightarrow> numberSource list \<Rightarrow> numberSpring \<times> bool" where
  "mergeLoopNumber (result, instant) [] = (result, instant)"
| "mergeLoopNumber (result, instant) (NInstant # rest) = mergeLoopNumber (result, True) rest"
| "mergeLoopNumber (result, instant) (NObject d s m # rest) =
     mergeLoopNumber (\<lparr>dampingNumber = nullishNumber d (dampingNumber result),
                       stiffnessNumber = nullishNumber s (stiffnessNumber result),
                       massNumber = nullishNumber m (massNumber result)\<rparr>, False) rest"
| "mergeLoopNumber (result, instant) (_ # rest) = mergeLoopNumber (result, instant) rest"

datatype cacheKey = CacheKey json json json

definition stringify :: "numberSpring \<Rightarrow> cacheKey" where
  "stringify result =
     CacheKey (stringifyNumber (dampingNumber result)) (stringifyNumber (stiffnessNumber result))
       (stringifyNumber (massNumber result))"

record numberStore =
  objects :: "nat \<Rightarrow> numberSpring option"
  frozenObjects :: "nat set"
  cachedObject :: "cacheKey \<Rightarrow> nat option"
  freshObject :: nat


definition mergeAnimationsNumber :: "numberSource list \<Rightarrow> numberStore \<Rightarrow> behavior \<times> numberStore" where
  "mergeAnimationsNumber sources st =
     (let r = freshObject st;
          (result, instant) = mergeLoopNumber (DEFAULT_SPRING_NUMBERS, False) sources;
          st1 = st\<lparr>objects := (objects st)(r \<mapsto> result), freshObject := Suc r\<rparr>;
          key = stringify result;
          st2 = (if cachedObject st1 key = None
                 then st1\<lparr>cachedObject := (cachedObject st1)(key \<mapsto> r),
                          frozenObjects := insert r (frozenObjects st1)\<rparr>
                 else st1)
      in (if instant then Instant else Spring (the (cachedObject st2 key)), st2))"


text \<open>The triple a source list resolves to, and whether all its fields are finite.\<close>

definition resolvedNumbers :: "numberSource list \<Rightarrow> numberSpring" where
  "resolvedNumbers sources = fst (mergeLoopNumber (DEFAULT_SPRING_NUMBERS, False) sources)"



text \<open>
  The model on reals inside the model on numbers: finite triples and sources, and stores
  that hold the same objects and agree on every finite key.
\<close>

definition liftSpring :: "spring \<Rightarrow> numberSpring" where
  "liftSpring r =
     \<lparr>dampingNumber = Finite (damping r), stiffnessNumber = Finite (stiffness r),
      massNumber = Finite (mass r)\<rparr>"

fun liftSource :: "animationSource \<Rightarrow> numberSource" where
  "liftSource SInstant = NInstant"
| "liftSource SSmooth = NSmooth"
| "liftSource SAuto = NAuto"
| "liftSource (SBool b) = NBool b"
| "liftSource SUndefined = NUndefined"
| "liftSource (SObject d s m) =
     NObject (map_option Finite d) (map_option Finite s) (map_option Finite m)"

definition storesAgree :: "store \<Rightarrow> numberStore \<Rightarrow> bool" where
  "storesAgree st nst =
     ((\<forall>a. objects nst a = map_option liftSpring (heap st a))
      \<and> frozenObjects nst = frozen st \<and> freshObject nst = fresh st
      \<and> (\<forall>r. cachedObject nst (stringify (liftSpring r)) = animationCache st r))"



subsection \<open>The calculated target on JavaScript numbers\<close>








section \<open>Stopping\<close>

text \<open>
  A scroll element near the bottom (offset 450, target 499), the loop that the first
  resize observation starts on it, the state after that loop's first frame and \<open>stop()\<close>,
  and the state after the content has then shrunk by 10.
\<close>

definition nearElement :: element where
  "nearElement = \<lparr>elemId = 1, scrollTop = 450, scrollHeight = 1000, clientHeight = 500\<rparr>"

definition nearState :: hook where
  "nearState = initialState noOptions ElementMode (elementPage nearElement) emptyStore"

definition resizeLoop :: loop where
  "resizeLoop =
     \<lparr>loopBehavior = Spring 0, loopIgnoreEscapes = False, waitElapsed = 1,
      durationElapsed = Some 351, startTarget = 499, loopPromise = 0\<rparr>"

definition stoppedNear :: hook where
  "stoppedNear =
     run [ResizeEntry 0 1000, AnimationFrame 16 16 resizeLoop, CallStopScroll] nearState"

definition shrunkPage :: page where
  "shrunkPage = elementPage (nearElement\<lparr>scrollHeight := 990\<rparr>)"

definition shrunkNear :: hook where
  "shrunkNear = run [PageChange shrunkPage, ResizeEntry 20 990] stoppedNear"

text \<open>
  The operations that cannot set \<open>isAtBottom\<close>: all but a call of \<open>scrollToBottom\<close>
  without \<open>preserveScrollPosition\<close>, the timeout of a scroll notification, the resize
  callback and the document-mode effect.
\<close>

definition keepsStopped :: "operation \<Rightarrow> bool" where
  "keepsStopped ope =
     (case ope of
        CallScrollToBottom now (OptString s) \<Rightarrow> False
      | CallScrollToBottom now (OptObject so) \<Rightarrow> preserveScrollPosition so
      | ScrollTimeout cap \<Rightarrow> False
      | DocumentModeEffect \<Rightarrow> False
      | ResizeEntry now height \<Rightarrow> False
      | _ \<Rightarrow> True)"

section \<open>The parameter resolver\<close>

lemma mergeLoop_append:
  "mergeLoop acc (xs @ ys) = mergeLoop (mergeLoop acc xs) ys"
proof (induction acc xs rule: mergeLoop.induct)
  case (1 result instant)
  then show ?case by simp
qed simp_all

lemma mergeLoop_drop_instant:
  "fst (mergeLoop (r, i) xs) = fst (mergeLoop (r, j) (filter (\<lambda>a. a \<noteq> SInstant) xs))"
proof (induction xs arbitrary: r i j)
  case Nil
  then show ?case by simp
next
  case (Cons a xs)
  then show ?case by (cases a) simp_all
qed

text \<open>
  Claim C6, as the code has it. Sources are applied left to right and a later object
  source overrides the numeric fields it defines. The sentinel \<open>"instant"\<close> marks the
  result instant and leaves the overrides accumulated so far as they are: the resolved
  triple is the one of the list with every \<open>"instant"\<close> removed. A later object source
  un-marks the instant flag.
\<close>

theorem mergeLoop_instant_keeps_overrides:
  "resolvedTriple xs = resolvedTriple (filter (\<lambda>a. a \<noteq> SInstant) xs)
   \<and> resolvedTriple (xs @ [SInstant]) = resolvedTriple xs
   \<and> resolvedInstant (xs @ [SInstant])
   \<and> resolvedTriple (xs @ [SObject d s m]) =
       \<lparr>damping = nullish d (damping (resolvedTriple xs)),
        stiffness = nullish s (stiffness (resolvedTriple xs)),
        mass = nullish m (mass (resolvedTriple xs))\<rparr>
   \<and> \<not> resolvedInstant (xs @ [SObject d s m])"
proof -
  obtain r i where ri: "mergeLoop (DEFAULT_SPRING_ANIMATION, False) xs = (r, i)"
    by (cases "mergeLoop (DEFAULT_SPRING_ANIMATION, False) xs")
  have "resolvedTriple xs = resolvedTriple (filter (\<lambda>a. a \<noteq> SInstant) xs)"
    unfolding resolvedTriple_def by (rule mergeLoop_drop_instant)
  then show ?thesis
    by (simp add: resolvedTriple_def resolvedInstant_def mergeLoop_append ri)
qed

text \<open>
  Claim C6 as stated says that \<open>"instant"\<close> after object sources resets the overrides
  to the defaults. After \<open>{damping: 0.5}\<close> and \<open>"instant"\<close> the accumulated triple is not
  the default one, and a later \<open>{mass: 2}\<close> resolves to an object whose damping is still
  \<open>0.5\<close>.
\<close>

theorem mergeAnimations_instant_counterexample:
  "fst (mergeLoop (DEFAULT_SPRING_ANIMATION, False) [SObject (Some (1 / 2)) None None, SInstant])
     \<noteq> DEFAULT_SPRING_ANIMATION
   \<and> fst (mergeAnimations [SObject (Some (1 / 2)) None None, SInstant, SObject None None (Some 2)]
            emptyStore) = Spring 0
   \<and> heap (snd (mergeAnimations [SObject (Some (1 / 2)) None None, SInstant, SObject None None (Some 2)]
                  emptyStore)) 0
       = Some \<lparr>damping = 1 / 2, stiffness = 5 / 100, mass = 2\<rparr>"
  by (simp add: mergeAnimations_def emptyStore_def DEFAULT_SPRING_ANIMATION_def nullish_def Let_def)

lemma mergeAnimations_snd:
  "snd (mergeAnimations c st) =
     (if animationCache st (resolvedTriple c) = None
      then st\<lparr>heap := (heap st)(fresh st \<mapsto> resolvedTriple c), fresh := Suc (fresh st),
              animationCache := (animationCache st)(resolvedTriple c \<mapsto> fresh st),
              frozen := insert (fresh st) (frozen st)\<rparr>
      else st\<lparr>heap := (heap st)(fresh st \<mapsto> resolvedTriple c), fresh := Suc (fresh st)\<rparr>)"
  by (simp add: mergeAnimations_def resolvedTriple_def Let_def split: prod.splits)



lemma mergeAnimationsNumber_snd:
  "snd (mergeAnimationsNumber c st) =
     (if cachedObject st (stringify (resolvedNumbers c)) = None
      then st\<lparr>objects := (objects st)(freshObject st \<mapsto> resolvedNumbers c),
              freshObject := Suc (freshObject st),
              cachedObject := (cachedObject st)(stringify (resolvedNumbers c) \<mapsto> freshObject st),
              frozenObjects := insert (freshObject st) (frozenObjects st)\<rparr>
      else st\<lparr>objects := (objects st)(freshObject st \<mapsto> resolvedNumbers c),
              freshObject := Suc (freshObject st)\<rparr>)"
  by (simp add: mergeAnimationsNumber_def resolvedNumbers_def Let_def split: prod.splits)














text \<open>
  On finite numbers the resolver on reals and the resolver on JavaScript numbers return
  the same behavior and keep their stores in agreement.
\<close>

lemma liftSpring_default: "liftSpring DEFAULT_SPRING_ANIMATION = DEFAULT_SPRING_NUMBERS"
  by (simp add: liftSpring_def DEFAULT_SPRING_ANIMATION_def DEFAULT_SPRING_NUMBERS_def)

lemma mergeLoop_lift:
  "mergeLoopNumber (liftSpring r, i) (map liftSource xs)
     = (liftSpring (fst (mergeLoop (r, i) xs)), snd (mergeLoop (r, i) xs))"
proof (induction xs arbitrary: r i)
  case Nil
  then show ?case by simp
next
  case (Cons a xs)
  show ?case
  proof (cases a)
    case (SObject d s m)
    have "\<lparr>dampingNumber = nullishNumber (map_option Finite d) (dampingNumber (liftSpring r)),
           stiffnessNumber = nullishNumber (map_option Finite s) (stiffnessNumber (liftSpring r)),
           massNumber = nullishNumber (map_option Finite m) (massNumber (liftSpring r))\<rparr>
        = liftSpring \<lparr>damping = nullish d (damping r), stiffness = nullish s (stiffness r),
                      mass = nullish m (mass r)\<rparr>"
      by (simp add: liftSpring_def nullish_def nullishNumber_def split: option.splits)
    then show ?thesis
      using SObject Cons.IH by simp
  qed (simp_all add: Cons.IH)
qed

lemma resolvedNumbers_lift:
  "resolvedNumbers (map liftSource xs) = liftSpring (resolvedTriple xs)"
  by (simp add: resolvedNumbers_def resolvedTriple_def liftSpring_default [symmetric] mergeLoop_lift)

lemma stringify_lift_inject:
  "stringify (liftSpring r) = stringify (liftSpring r') \<longleftrightarrow> r = r'"
  by (auto simp: stringify_def liftSpring_def)

lemma mergeAnimations_fst_snd:
  "mergeAnimations xs st =
     (if resolvedInstant xs then Instant
      else Spring (case animationCache st (resolvedTriple xs) of None \<Rightarrow> fresh st | Some a \<Rightarrow> a),
      snd (mergeAnimations xs st))"
  by (auto simp: mergeAnimations_def resolvedTriple_def resolvedInstant_def Let_def
      split: prod.splits option.splits)

lemma mergeAnimationsNumber_fst:
  "fst (mergeAnimationsNumber xs st) =
     (if snd (mergeLoopNumber (DEFAULT_SPRING_NUMBERS, False) xs) then Instant
      else Spring (case cachedObject st (stringify (resolvedNumbers xs)) of
                     None \<Rightarrow> freshObject st | Some a \<Rightarrow> a))"
  by (auto simp: mergeAnimationsNumber_def resolvedNumbers_def Let_def
      split: prod.splits option.splits)

lemma mergeAnimations_refines:
  assumes "storesAgree st nst"
  shows "fst (mergeAnimationsNumber (map liftSource xs) nst) = fst (mergeAnimations xs st)"
    and "storesAgree (snd (mergeAnimations xs st)) (snd (mergeAnimationsNumber (map liftSource xs) nst))"
proof -
  have inst: "snd (mergeLoopNumber (DEFAULT_SPRING_NUMBERS, False) (map liftSource xs))
      = resolvedInstant xs"
    by (simp add: resolvedInstant_def liftSpring_default [symmetric] mergeLoop_lift)
  have cache: "cachedObject nst (stringify (liftSpring r)) = animationCache st r" for r
    using assms by (simp add: storesAgree_def)
  have fr: "freshObject nst = fresh st" using assms by (simp add: storesAgree_def)
  show "fst (mergeAnimationsNumber (map liftSource xs) nst) = fst (mergeAnimations xs st)"
    by (subst mergeAnimations_fst_snd)
       (simp add: mergeAnimationsNumber_fst inst resolvedNumbers_lift cache fr
          cong: option.case_cong)
  show "storesAgree (snd (mergeAnimations xs st)) (snd (mergeAnimationsNumber (map liftSource xs) nst))"
    using assms
    by (auto simp: mergeAnimations_snd mergeAnimationsNumber_snd resolvedNumbers_lift cache
        storesAgree_def stringify_lift_inject)
qed

section \<open>Evaluation and frame lemmas\<close>

lemmas eval_defs =
  tallState_def tallElement_def elementPage_def emptyElement_def clampSettle_def noOptions_def
  initialState_def emptyStore_def DEFAULT_SPRING_ANIMATION_def nullish_def
  mergeAnimations_def optionsSource_def scrollToBottom_def defaultScrollOptions_def
  ofScrollBehavior_def waitMs_def next_def animationBehaviorIs_def
  calculatedTargetScrollTop_def targetScrollTop_def getScrollDimensions_def
  getScrollElement_def getScrollTop_def setScrollTop_def scrollDifference_def
  isNearBottom_def setIsAtBottom_def setEscapedFromLock_def setIsNearBottom_def
  isSelecting_def frame_def again_def springStep_def behaviorSource_def
  handleScroll_def handleScrollTimeout_def scrollRefNode_def ignoreEscapesActive_def
  STICK_TO_BOTTOM_OFFSET_PX_def SIXTY_FPS_INTERVAL_MS_def RETAIN_ANIMATION_DURATION_MS_def
  stopScroll_def afterSettled_def clearLastCalculation_def resizeReset_def attachContent_def
  useStickToBottom_def Let_def

text \<open>The getter of the calculated target changes nothing but its cache.\<close>

lemma calc_snd:
  "\<exists>c. snd (calculatedTargetScrollTop h) = h\<lparr>lastCalculation := c\<rparr>"
proof -
  have same: "h = h\<lparr>lastCalculation := lastCalculation h\<rparr>" by simp
  show ?thesis
    unfolding calculatedTargetScrollTop_def Let_def
    by (auto split: option.splits intro: exI [of _ "lastCalculation h"])
qed

lemma calc_fields:
  "lastScrollTop (snd (calculatedTargetScrollTop h)) = lastScrollTop h"
  "ignoreScrollToTop (snd (calculatedTargetScrollTop h)) = ignoreScrollToTop h"
  "animation (snd (calculatedTargetScrollTop h)) = animation h"
  "lastTick (snd (calculatedTargetScrollTop h)) = lastTick h"
  "velocity (snd (calculatedTargetScrollTop h)) = velocity h"
  "accumulated (snd (calculatedTargetScrollTop h)) = accumulated h"
  "escapedFromLock (snd (calculatedTargetScrollTop h)) = escapedFromLock h"
  "isAtBottom (snd (calculatedTargetScrollTop h)) = isAtBottom h"
  "resizeDifference (snd (calculatedTargetScrollTop h)) = resizeDifference h"
  "isNearBottomState (snd (calculatedTargetScrollTop h)) = isNearBottomState h"
  "currentOptions (snd (calculatedTargetScrollTop h)) = currentOptions h"
  "mode (snd (calculatedTargetScrollTop h)) = mode h"
  "env (snd (calculatedTargetScrollTop h)) = env h"
  "animations (snd (calculatedTargetScrollTop h)) = animations h"
  "promiseCount (snd (calculatedTargetScrollTop h)) = promiseCount h"
  "previousHeight (snd (calculatedTargetScrollTop h)) = previousHeight h"
proof -
  obtain c where c: "snd (calculatedTargetScrollTop h) = h\<lparr>lastCalculation := c\<rparr>"
    using calc_snd by blast
  show "lastScrollTop (snd (calculatedTargetScrollTop h)) = lastScrollTop h"
  "ignoreScrollToTop (snd (calculatedTargetScrollTop h)) = ignoreScrollToTop h"
  "animation (snd (calculatedTargetScrollTop h)) = animation h"
  "lastTick (snd (calculatedTargetScrollTop h)) = lastTick h"
  "velocity (snd (calculatedTargetScrollTop h)) = velocity h"
  "accumulated (snd (calculatedTargetScrollTop h)) = accumulated h"
  "escapedFromLock (snd (calculatedTargetScrollTop h)) = escapedFromLock h"
  "isAtBottom (snd (calculatedTargetScrollTop h)) = isAtBottom h"
  "resizeDifference (snd (calculatedTargetScrollTop h)) = resizeDifference h"
  "isNearBottomState (snd (calculatedTargetScrollTop h)) = isNearBottomState h"
  "currentOptions (snd (calculatedTargetScrollTop h)) = currentOptions h"
  "mode (snd (calculatedTargetScrollTop h)) = mode h"
  "env (snd (calculatedTargetScrollTop h)) = env h"
  "animations (snd (calculatedTargetScrollTop h)) = animations h"
  "promiseCount (snd (calculatedTargetScrollTop h)) = promiseCount h"
  "previousHeight (snd (calculatedTargetScrollTop h)) = previousHeight h"
    by (simp_all add: c)
qed

lemma scrollToBottom_unfold:
  "scrollToBottom now (OptObject so) h =
     (let h1 = (if \<not> preserveScrollPosition so then setIsAtBottom True h else h);
          m = mergeAnimations [optionsSource (currentOptions h1), optAnimation so] (animations h1);
          h2 = h1\<lparr>animations := snd m\<rparr>;
          h3 = snd (calculatedTargetScrollTop h2);
          h4 = (if optWait so \<noteq> WaitBool True then h3\<lparr>animation := None\<rparr> else h3)
      in if animationBehaviorIs (fst m) h4 then (Existing (promise (the (animation h4))), h4)
         else (Started \<lparr>loopBehavior = fst m,
                 loopIgnoreEscapes = (case optIgnoreEscapes so of None \<Rightarrow> False | Some x \<Rightarrow> x),
                 waitElapsed = now + waitMs (optWait so),
                 durationElapsed = (case optDuration so of
                    DurationPromise \<Rightarrow> None
                  | DurationMs d \<Rightarrow> Some (now + waitMs (optWait so) + d)
                  | DurationUndefined \<Rightarrow> Some (now + waitMs (optWait so) + 0)),
                 startTarget = fst (calculatedTargetScrollTop h2),
                 loopPromise = promiseCount h4\<rparr>,
               h4\<lparr>promiseCount := Suc (promiseCount h4)\<rparr>))"
  unfolding scrollToBottom_def Let_def split_beta next_def
  by (simp cong: durationOption.case_cong)

section \<open>The escape detector\<close>

text \<open>
  Claim C10. A scroll notification whose target is not the attached scroll element is
  discarded: the state is unchanged and no timeout is set.
\<close>

theorem handleScroll_foreign_target:
  "target \<noteq> scrollRefNode h \<Longrightarrow> handleScroll target h = (h, None)"
  by (simp add: handleScroll_def)

text \<open>A notification from the document, while the scroll element is element 1.\<close>

theorem handleScroll_foreign_target_witness:
  "Some NodeDocument \<noteq> scrollRefNode tallState
   \<and> handleScroll (Some NodeDocument) tallState = (tallState, None)"
proof -
  have ne: "Some NodeDocument \<noteq> scrollRefNode tallState"
    by (simp add: scrollRefNode_def tallState_def initialState_def elementPage_def)
  show ?thesis
    using ne handleScroll_foreign_target [OF ne] by simp
qed

text \<open>
  Claim C1 as stated gives the \<open>ignoreEscapes\<close> rule priority over the text-selection rule.
  On \<open>tallState\<close>, \<open>scrollToBottom({ignoreEscapes: true})\<close> starts \<open>lockedLoop\<close>; after its
  first frame the user selects text across the surface and scrolls up. The notification's
  timeout then runs while the animation that ignores escapes is on record and the
  selection is active, and it sets \<open>escapedFromLock\<close> and clears \<open>isAtBottom\<close>.
\<close>

theorem selection_beats_ignoreEscapes_counterexample:
  "fst (scrollToBottom 0 (OptObject (defaultScrollOptions\<lparr>optIgnoreEscapes := Some True\<rparr>)) tallState)
     = Started lockedLoop
   \<and> snd (handleScroll (Some (NodeElement 1)) lockedScrolled) = Some lockedCapture
   \<and> ignoreEscapesActive lockedSelecting \<and> isSelecting lockedSelecting
   \<and> isAtBottom lockedSelecting \<and> \<not> escapedFromLock lockedSelecting
   \<and> escapedFromLock (handleScrollTimeout lockedCapture lockedSelecting)
   \<and> \<not> isAtBottom (handleScrollTimeout lockedCapture lockedSelecting)"
  by (simp add: lockedSelecting_def lockedScrolled_def eval_defs lockedLoop_def selectingPage_def
      lockedCapture_def)

text \<open>
  Claim C1, as the code has it. For a notification that the timeout does not discard (no
  resize in progress, and the offset is not the one the program wrote), the text-selection
  rule comes first: an active selection sets \<open>escapedFromLock\<close> and clears \<open>isAtBottom\<close>,
  whether or not the animation ignores escapes. With no selection, an animation that
  ignores escapes suppresses the escape: the offset is written back to \<open>lastScrollTop\<close>
  and the two flags are unchanged.
\<close>

theorem handleScrollTimeout_priority:
  assumes "resizeDifference h = 0"
    and "Some (getScrollTop h) \<noteq> capturedIgnoreScrollToTop cap"
  shows "(isSelecting h \<longrightarrow>
            handleScrollTimeout cap h = h\<lparr>escapedFromLock := True, isAtBottom := False\<rparr>)
       \<and> (\<not> isSelecting h \<and> ignoreEscapesActive h \<longrightarrow>
            handleScrollTimeout cap h = setScrollTop (capturedLastScrollTop cap) h
            \<and> escapedFromLock (handleScrollTimeout cap h) = escapedFromLock h
            \<and> isAtBottom (handleScrollTimeout cap h) = isAtBottom h)"
  using assms
  by (auto simp: handleScrollTimeout_def setIsAtBottom_def setEscapedFromLock_def
      setScrollTop_def Let_def split: option.splits)

text \<open>
  Both rules at the state of the scenario above: with the selection active the
  notification escapes; with the mouse button released it writes the offset back from 50
  to 100 and leaves the flags as they are.
\<close>

theorem handleScrollTimeout_priority_witness:
  "resizeDifference lockedSelecting = 0
   \<and> Some (getScrollTop lockedSelecting) \<noteq> capturedIgnoreScrollToTop lockedCapture
   \<and> isSelecting lockedSelecting
   \<and> handleScrollTimeout lockedCapture lockedSelecting
       = lockedSelecting\<lparr>escapedFromLock := True, isAtBottom := False\<rparr>
   \<and> resizeDifference lockedUnselected = 0
   \<and> Some (getScrollTop lockedUnselected) \<noteq> capturedIgnoreScrollToTop lockedCapture
   \<and> \<not> isSelecting lockedUnselected \<and> ignoreEscapesActive lockedUnselected
   \<and> getScrollTop lockedUnselected = 50
   \<and> getScrollTop (handleScrollTimeout lockedCapture lockedUnselected) = 100
   \<and> isAtBottom (handleScrollTimeout lockedCapture lockedUnselected)
   \<and> \<not> escapedFromLock (handleScrollTimeout lockedCapture lockedUnselected)"
proof -
  have a: "resizeDifference lockedSelecting = 0"
    and b: "Some (getScrollTop lockedSelecting) \<noteq> capturedIgnoreScrollToTop lockedCapture"
    and c: "isSelecting lockedSelecting"
    by (simp_all add: lockedSelecting_def lockedScrolled_def eval_defs lockedLoop_def
        selectingPage_def lockedCapture_def)
  have d: "resizeDifference lockedUnselected = 0"
    and e: "Some (getScrollTop lockedUnselected) \<noteq> capturedIgnoreScrollToTop lockedCapture"
    and f: "\<not> isSelecting lockedUnselected" "ignoreEscapesActive lockedUnselected"
    and g: "getScrollTop lockedUnselected = 50"
      "getScrollTop (setScrollTop (capturedLastScrollTop lockedCapture) lockedUnselected) = 100"
      "isAtBottom lockedUnselected" "\<not> escapedFromLock lockedUnselected"
    by (simp_all add: lockedUnselected_def lockedSelecting_def lockedScrolled_def eval_defs
        lockedLoop_def selectingPage_def lockedCapture_def)
  have first: "handleScrollTimeout lockedCapture lockedSelecting
      = lockedSelecting\<lparr>escapedFromLock := True, isAtBottom := False\<rparr>"
    using handleScrollTimeout_priority [OF a b] c by simp
  have second: "getScrollTop (handleScrollTimeout lockedCapture lockedUnselected) = 100
      \<and> isAtBottom (handleScrollTimeout lockedCapture lockedUnselected)
      \<and> \<not> escapedFromLock (handleScrollTimeout lockedCapture lockedUnselected)"
  proof -
    from handleScrollTimeout_priority [OF d e] f
    have eq: "handleScrollTimeout lockedCapture lockedUnselected
        = setScrollTop (capturedLastScrollTop lockedCapture) lockedUnselected"
      and esc: "escapedFromLock (handleScrollTimeout lockedCapture lockedUnselected)
        = escapedFromLock lockedUnselected"
      and atb: "isAtBottom (handleScrollTimeout lockedCapture lockedUnselected)
        = isAtBottom lockedUnselected"
      by blast+
    show ?thesis
      unfolding esc atb using g eq by simp
  qed
  show ?thesis
    using a b c d e f g(1) first second by simp
qed

section \<open>Commands\<close>

text \<open>
  Claim C5 as stated lets two calls with the same resolved behavior share one animation.
  In \<open>animatingState\<close> an animation with the behavior object 0 is on record; a second
  plain call resolves to the same object, yet it clears the record and starts
  \<open>secondLoop\<close>, with a promise of its own.
\<close>

theorem scrollToBottom_duplicate_counterexample:
  "animation animatingState = Some \<lparr>behavior = Spring 0, ignoreEscapes = False, promise = 0\<rparr>
   \<and> fst (mergeAnimations [optionsSource (currentOptions animatingState), SUndefined]
            (animations animatingState)) = Spring 0
   \<and> fst (scrollToBottom 20 (OptObject defaultScrollOptions) animatingState) = Started secondLoop
   \<and> animation (snd (scrollToBottom 20 (OptObject defaultScrollOptions) animatingState)) = None"
  by (simp add: animatingState_def eval_defs springLoop_def secondLoop_def)

text \<open>
  Claim C5, as the code has it. A call with \<open>wait: true\<close>, while an animation with the same
  resolved behavior object is on record, returns that animation's promise, keeps the
  record and requests no frame. A call with any other \<open>wait\<close> clears the record and starts
  a new loop for the resolved behavior, with a new promise.
\<close>

theorem scrollToBottom_shares_only_when_waiting:
  assumes "fst (mergeAnimations [optionsSource (currentOptions h), optAnimation so] (animations h)) = b"
  shows "(optWait so = WaitBool True \<and> animation h = Some a \<and> behavior a = b \<longrightarrow>
            fst (scrollToBottom now (OptObject so) h) = Existing (promise a)
            \<and> animation (snd (scrollToBottom now (OptObject so) h)) = Some a
            \<and> promiseCount (snd (scrollToBottom now (OptObject so) h)) = promiseCount h)
       \<and> (optWait so \<noteq> WaitBool True \<longrightarrow>
            (\<exists>l. fst (scrollToBottom now (OptObject so) h) = Started l
                 \<and> loopBehavior l = b \<and> loopPromise l = promiseCount h)
            \<and> animation (snd (scrollToBottom now (OptObject so) h)) = None
            \<and> promiseCount (snd (scrollToBottom now (OptObject so) h)) = Suc (promiseCount h))"
proof -
  define h1 where "h1 = (if \<not> preserveScrollPosition so then setIsAtBottom True h else h)"
  have h1: "currentOptions h1 = currentOptions h" "animations h1 = animations h"
    "animation h1 = animation h" "promiseCount h1 = promiseCount h"
    by (simp_all add: h1_def setIsAtBottom_def)
  define m where "m = mergeAnimations [optionsSource (currentOptions h1), optAnimation so] (animations h1)"
  have m: "fst m = b" using assms by (simp add: m_def h1)
  define h3 where "h3 = snd (calculatedTargetScrollTop (h1\<lparr>animations := snd m\<rparr>))"
  have h3: "animation h3 = animation h" "promiseCount h3 = promiseCount h"
    by (simp_all add: h3_def calc_fields h1)
  have u: "scrollToBottom now (OptObject so) h =
     (let h4 = (if optWait so \<noteq> WaitBool True then h3\<lparr>animation := None\<rparr> else h3)
      in if animationBehaviorIs b h4 then (Existing (promise (the (animation h4))), h4)
         else (Started \<lparr>loopBehavior = b,
                 loopIgnoreEscapes = (case optIgnoreEscapes so of None \<Rightarrow> False | Some x \<Rightarrow> x),
                 waitElapsed = now + waitMs (optWait so),
                 durationElapsed = (case optDuration so of
                    DurationPromise \<Rightarrow> None
                  | DurationMs d \<Rightarrow> Some (now + waitMs (optWait so) + d)
                  | DurationUndefined \<Rightarrow> Some (now + waitMs (optWait so) + 0)),
                 startTarget = fst (calculatedTargetScrollTop (h1\<lparr>animations := snd m\<rparr>)),
                 loopPromise = promiseCount h4\<rparr>,
               h4\<lparr>promiseCount := Suc (promiseCount h4)\<rparr>))"
    unfolding scrollToBottom_unfold Let_def h3_def m_def h1_def [symmetric]
    using m unfolding m_def by simp
  show ?thesis
  proof (intro conjI impI)
    assume w: "optWait so = WaitBool True \<and> animation h = Some a \<and> behavior a = b"
    then have bis: "animationBehaviorIs b h3"
      by (simp add: animationBehaviorIs_def h3)
    from w bis show "fst (scrollToBottom now (OptObject so) h) = Existing (promise a)"
      by (simp add: u h3)
    from w bis show "animation (snd (scrollToBottom now (OptObject so) h)) = Some a"
      by (simp add: u h3)
    from w bis show "promiseCount (snd (scrollToBottom now (OptObject so) h)) = promiseCount h"
      by (simp add: u h3)
  next
    assume w: "optWait so \<noteq> WaitBool True"
    then have nis: "\<not> animationBehaviorIs b (h3\<lparr>animation := None\<rparr>)"
      by (simp add: animationBehaviorIs_def)
    from w nis show "\<exists>l. fst (scrollToBottom now (OptObject so) h) = Started l
                 \<and> loopBehavior l = b \<and> loopPromise l = promiseCount h"
      by (simp add: u h3)
    from w nis show "animation (snd (scrollToBottom now (OptObject so) h)) = None"
      by (simp add: u h3)
    from w nis show "promiseCount (snd (scrollToBottom now (OptObject so) h)) = Suc (promiseCount h)"
      by (simp add: u h3)
  qed
qed

text \<open>
  In \<open>animatingState\<close> a call with \<open>wait: true\<close> returns the promise on record; a plain
  call clears the record and takes a new promise.
\<close>

theorem scrollToBottom_shares_only_when_waiting_witness:
  "fst (mergeAnimations [optionsSource (currentOptions animatingState), SUndefined]
          (animations animatingState)) = Spring 0
   \<and> animation animatingState = Some \<lparr>behavior = Spring 0, ignoreEscapes = False, promise = 0\<rparr>
   \<and> fst (scrollToBottom 20 (OptObject (defaultScrollOptions\<lparr>optWait := WaitBool True\<rparr>))
            animatingState) = Existing 0
   \<and> optWait defaultScrollOptions \<noteq> WaitBool True
   \<and> animation (snd (scrollToBottom 20 (OptObject defaultScrollOptions) animatingState)) = None
   \<and> promiseCount (snd (scrollToBottom 20 (OptObject defaultScrollOptions) animatingState))
       = Suc (promiseCount animatingState)"
proof -
  have m: "fst (mergeAnimations [optionsSource (currentOptions animatingState),
              optAnimation (defaultScrollOptions\<lparr>optWait := WaitBool True\<rparr>)]
            (animations animatingState)) = Spring 0"
    and n: "fst (mergeAnimations [optionsSource (currentOptions animatingState),
              optAnimation defaultScrollOptions]
            (animations animatingState)) = Spring 0"
    and a: "animation animatingState = Some \<lparr>behavior = Spring 0, ignoreEscapes = False, promise = 0\<rparr>"
    and w: "optWait defaultScrollOptions \<noteq> WaitBool True"
    by (simp_all add: animatingState_def eval_defs springLoop_def)
  have first: "fst (scrollToBottom 20 (OptObject (defaultScrollOptions\<lparr>optWait := WaitBool True\<rparr>))
            animatingState) = Existing 0"
    using scrollToBottom_shares_only_when_waiting
            [OF m, of "\<lparr>behavior = Spring 0, ignoreEscapes = False, promise = 0\<rparr>" 20] a
    by (simp add: defaultScrollOptions_def)
  have second: "animation (snd (scrollToBottom 20 (OptObject defaultScrollOptions) animatingState)) = None
      \<and> promiseCount (snd (scrollToBottom 20 (OptObject defaultScrollOptions) animatingState))
          = Suc (promiseCount animatingState)"
    using scrollToBottom_shares_only_when_waiting [OF n, of _ 20] w by blast
  show ?thesis
    using m a w first second by (simp add: defaultScrollOptions_def)
qed

section \<open>The stickiness flags\<close>

text \<open>Getters, offset writes and frames leave the two flags as they are.\<close>

lemma calc_flags [simp]:
  "isAtBottom (snd (calculatedTargetScrollTop h)) = isAtBottom h"
  "escapedFromLock (snd (calculatedTargetScrollTop h)) = escapedFromLock h"
  by (simp_all add: calc_fields)

lemma setScrollTop_flags [simp]:
  "isAtBottom (setScrollTop v h) = isAtBottom h"
  "escapedFromLock (setScrollTop v h) = escapedFromLock h"
  by (simp_all add: setScrollTop_def Let_def split: option.splits)

lemma scrollDifference_flags [simp]:
  "isAtBottom (snd (scrollDifference h)) = isAtBottom h"
  "escapedFromLock (snd (scrollDifference h)) = escapedFromLock h"
  by (simp_all add: scrollDifference_def split_beta)

lemma isNearBottom_flags [simp]:
  "isAtBottom (snd (isNearBottom h)) = isAtBottom h"
  "escapedFromLock (snd (isNearBottom h)) = escapedFromLock h"
  by (simp_all add: isNearBottom_def split_beta)

lemma again_flags [simp]:
  "isAtBottom (snd (again l h)) = isAtBottom h"
  "escapedFromLock (snd (again l h)) = escapedFromLock h"
  by (simp_all add: again_def next_def)

lemma springStep_flags [simp]:
  "isAtBottom (springStep sp d s h) = isAtBottom h"
  "escapedFromLock (springStep sp d s h) = escapedFromLock h"
  by (simp_all add: springStep_def Let_def split_beta)

lemma scrollToBottom_flags:
  "isAtBottom (snd (scrollToBottom now (OptObject so) h)) = (isAtBottom h \<or> \<not> preserveScrollPosition so)"
  "escapedFromLock (snd (scrollToBottom now (OptObject so) h)) = escapedFromLock h"
  by (simp_all add: scrollToBottom_unfold Let_def setIsAtBottom_def)

lemma frame_flags:
  "isAtBottom (snd (frame now tick l h)) = isAtBottom h"
  "escapedFromLock (snd (frame now tick l h)) = escapedFromLock h"
  by (simp_all add: frame_def Let_def split_beta scrollToBottom_flags
      split: option.split behavior.split)

lemma scrollToBottom_string:
  "scrollToBottom now (OptString s) h =
     scrollToBottom now (OptObject (defaultScrollOptions\<lparr>optAnimation := ofScrollBehavior s\<rparr>)) h"
  by (simp add: scrollToBottom_def)

lemma handleScroll_flags:
  "isAtBottom (fst (handleScroll target h)) = isAtBottom h"
  "escapedFromLock (fst (handleScroll target h)) = escapedFromLock h"
  by (simp_all add: handleScroll_def Let_def split_beta setIsNearBottom_def)

lemma handleScrollTimeout_lock:
  "lockInvariant h \<Longrightarrow> lockInvariant (handleScrollTimeout cap h)"
  by (auto simp: handleScrollTimeout_def lockInvariant_def Let_def split_beta
      setIsAtBottom_def setEscapedFromLock_def)

lemma wheelEscape_lock:
  "lockInvariant h \<Longrightarrow> lockInvariant (wheelEscape deltaY h)"
  by (auto simp: wheelEscape_def lockInvariant_def split_beta setIsAtBottom_def setEscapedFromLock_def)

lemma wheelClimb_lock:
  "lockInvariant h \<Longrightarrow> lockInvariant (wheelClimb deltaY path h)"
  by (induction path) (simp_all add: wheelEscape_lock)

lemma handleWheel_lock:
  "lockInvariant h \<Longrightarrow> lockInvariant (handleWheel deltaY path h)"
  by (auto simp: handleWheel_def wheelClimb_lock split_beta)
     (auto simp: lockInvariant_def setIsAtBottom_def setEscapedFromLock_def)

lemma documentModeEffect_lock:
  "lockInvariant h \<Longrightarrow> lockInvariant (documentModeEffect h)"
  by (auto simp: documentModeEffect_def lockInvariant_def Let_def split_beta
      setIsAtBottom_def setIsNearBottom_def)

lemma resizeCallback_lock:
  "lockInvariant h \<Longrightarrow> lockInvariant (fst (resizeCallback now height h))"
  by (auto simp: resizeCallback_def lockInvariant_def Let_def split_beta
      setIsAtBottom_def setIsNearBottom_def setEscapedFromLock_def scrollToBottom_flags)

lemma perform_lock:
  assumes "\<not> forcesAtBottom ope" and "lockInvariant h"
  shows "lockInvariant (perform ope h)"
proof (cases ope)
  case (CallScrollToBottom now so)
  show ?thesis
  proof (cases so)
    case (OptString s)
    with CallScrollToBottom assms(1) show ?thesis by (simp add: forcesAtBottom_def)
  next
    case (OptObject o)
    with CallScrollToBottom assms show ?thesis
      by (simp add: forcesAtBottom_def lockInvariant_def scrollToBottom_flags)
  qed
next
  case CallStopScroll
  then show ?thesis
    by (simp add: stopScroll_def lockInvariant_def setIsAtBottom_def)
next
  case (AnimationFrame now tick l)
  with assms(2) show ?thesis by (simp add: lockInvariant_def frame_flags)
next
  case AfterSettled
  with assms(2) show ?thesis by (simp add: lockInvariant_def afterSettled_def)
next
  case ClearLastCalculation
  with assms(2) show ?thesis by (simp add: lockInvariant_def clearLastCalculation_def)
next
  case (ScrollEvent target)
  with assms(2) show ?thesis by (simp add: lockInvariant_def handleScroll_flags)
next
  case (ScrollTimeout cap)
  with assms(2) show ?thesis by (simp add: handleScrollTimeout_lock)
next
  case (WheelEvent deltaY path)
  with assms(2) show ?thesis by (simp add: handleWheel_lock)
next
  case DocumentModeEffect
  with assms(2) show ?thesis by (simp add: documentModeEffect_lock)
next
  case (ResizeEntry now height)
  with assms(2) show ?thesis by (simp add: resizeCallback_lock)
next
  case (ResizeReset difference)
  with assms(2) show ?thesis by (simp add: lockInvariant_def resizeReset_def)
next
  case (AttachContent content)
  with assms(2) show ?thesis by (simp add: lockInvariant_def attachContent_def)
next
  case (PageChange pg)
  with assms(2) show ?thesis by (simp add: lockInvariant_def)
next
  case (Render opts)
  with assms(2) show ?thesis by (simp add: lockInvariant_def)
qed

lemma run_lock:
  "\<forall>ope \<in> set ops. \<not> forcesAtBottom ope \<Longrightarrow> lockInvariant h \<Longrightarrow> lockInvariant (run ops h)"
  by (induction ops arbitrary: h) (simp_all add: perform_lock)

lemma perform_forced:
  assumes "forcesAtBottom ope"
  shows "isAtBottom (perform ope h) \<and> escapedFromLock (perform ope h) = escapedFromLock h"
proof (cases ope)
  case (CallScrollToBottom now so)
  show ?thesis
  proof (cases so)
    case (OptString s)
    with CallScrollToBottom show ?thesis
      by (simp add: scrollToBottom_string scrollToBottom_flags defaultScrollOptions_def)
  next
    case (OptObject o)
    with CallScrollToBottom assms show ?thesis
      by (simp add: forcesAtBottom_def scrollToBottom_flags)
  qed
qed (use assms in \<open>simp_all add: forcesAtBottom_def\<close>)

text \<open>
  Claim C2 as stated has no operation make \<open>isAtBottom\<close> true while \<open>escapedFromLock\<close> is
  true. After \<open>stop()\<close> and \<open>scrollToBottom()\<close> on \<open>tallState\<close> both flags are true, the view
  is not near the bottom, no animation has reported anything, and the hook returns both
  flags as true.
\<close>

theorem isAtBottom_while_escaped_counterexample:
  "isAtBottom stoppedThenScrolled \<and> escapedFromLock stoppedThenScrolled
   \<and> \<not> fst (isNearBottom stoppedThenScrolled)
   \<and> animation stoppedThenScrolled = None
   \<and> returnedIsAtBottom (useStickToBottom stoppedThenScrolled)
   \<and> returnedEscapedFromLock (useStickToBottom stoppedThenScrolled)"
  by (simp add: stoppedThenScrolled_def useStickToBottom_def eval_defs)

text \<open>
  Claim C2, as the code has it. Every operation other than a call of \<open>scrollToBottom\<close>
  without \<open>preserveScrollPosition\<close> keeps the state from being at the bottom and escaped
  at once, and so does every run of such operations from the initial state. A call of
  \<open>scrollToBottom\<close> without \<open>preserveScrollPosition\<close> sets \<open>isAtBottom\<close> whatever
  \<open>escapedFromLock\<close> is, and leaves \<open>escapedFromLock\<close> as it is. The hook returns
  \<open>isAtBottom || isNearBottom\<close> as its \<open>isAtBottom\<close>.
\<close>

theorem lock_invariant_operations:
  "(\<not> forcesAtBottom ope \<and> lockInvariant h \<longrightarrow> lockInvariant (perform ope h))
   \<and> (forcesAtBottom ope \<longrightarrow>
        isAtBottom (perform ope h) \<and> escapedFromLock (perform ope h) = escapedFromLock h)
   \<and> ((\<forall>ope \<in> set ops. \<not> forcesAtBottom ope) \<longrightarrow>
        lockInvariant (run ops (initialState opts m pg st)))
   \<and> returnedIsAtBottom (useStickToBottom h) = (isAtBottom h \<or> isNearBottomState h)"
proof -
  have "lockInvariant (initialState opts m pg st)"
    by (simp add: lockInvariant_def initialState_def)
  then have "(\<forall>ope \<in> set ops. \<not> forcesAtBottom ope) \<longrightarrow>
      lockInvariant (run ops (initialState opts m pg st))"
    using run_lock by blast
  then show ?thesis
    using perform_lock [of ope h] perform_forced [of ope h]
    by (simp add: useStickToBottom_def)
qed

text \<open>
  \<open>stop()\<close> and a scroll notification on \<open>tallState\<close> keep the invariant; a plain
  \<open>scrollToBottom()\<close> after \<open>stop()\<close> sets \<open>isAtBottom\<close> and leaves \<open>escapedFromLock\<close> true.
\<close>

theorem lock_invariant_operations_witness:
  "\<not> forcesAtBottom CallStopScroll \<and> lockInvariant tallState
   \<and> lockInvariant (perform CallStopScroll tallState)
   \<and> \<not> forcesAtBottom (ScrollEvent (Some (NodeElement 1)))
   \<and> lockInvariant (run [CallStopScroll, ScrollEvent (Some (NodeElement 1))] tallState)
   \<and> forcesAtBottom (CallScrollToBottom 0 (OptObject defaultScrollOptions))
   \<and> escapedFromLock (stopScroll tallState)
   \<and> isAtBottom (perform (CallScrollToBottom 0 (OptObject defaultScrollOptions)) (stopScroll tallState))
   \<and> escapedFromLock (perform (CallScrollToBottom 0 (OptObject defaultScrollOptions)) (stopScroll tallState))"
proof -
  have a: "\<not> forcesAtBottom CallStopScroll" and b: "lockInvariant tallState"
    and c: "\<forall>ope \<in> set [CallStopScroll, ScrollEvent (Some (NodeElement 1))]. \<not> forcesAtBottom ope"
    and d: "forcesAtBottom (CallScrollToBottom 0 (OptObject defaultScrollOptions))"
    and e: "escapedFromLock (stopScroll tallState)"
    by (simp_all add: forcesAtBottom_def lockInvariant_def tallState_def initialState_def
        defaultScrollOptions_def stopScroll_def setEscapedFromLock_def setIsAtBottom_def)
  have first: "lockInvariant (perform CallStopScroll tallState)
      \<and> lockInvariant (run [CallStopScroll, ScrollEvent (Some (NodeElement 1))] tallState)"
    using lock_invariant_operations
      [of CallStopScroll tallState "[CallStopScroll, ScrollEvent (Some (NodeElement 1))]"
          noOptions ElementMode "elementPage tallElement" emptyStore] a b c
    unfolding tallState_def [symmetric] by blast
  have second: "isAtBottom (perform (CallScrollToBottom 0 (OptObject defaultScrollOptions)) (stopScroll tallState))
      \<and> escapedFromLock (perform (CallScrollToBottom 0 (OptObject defaultScrollOptions)) (stopScroll tallState))"
    using lock_invariant_operations
      [of "CallScrollToBottom 0 (OptObject defaultScrollOptions)" "stopScroll tallState"] d e
    by blast
  have c1: "\<not> forcesAtBottom (ScrollEvent (Some (NodeElement 1)))"
    using c by simp
  show ?thesis using a b c1 d e first second by blast
qed

section \<open>The calculated target\<close>

lemma targetScrollTop_nonneg: "0 \<le> targetScrollTop h"
  by (simp add: targetScrollTop_def split_beta)

lemma calc_cache [simp]:
  "cacheWithinTarget (lastCalculation h) \<Longrightarrow>
     cacheWithinTarget (lastCalculation (snd (calculatedTargetScrollTop h)))"
  using targetScrollTop_nonneg [of h]
  by (auto simp: calculatedTargetScrollTop_def cacheWithinTarget_def Let_def split: option.splits)




lemma setScrollTop_cache [simp]:
  "lastCalculation (setScrollTop v h) = lastCalculation h"
  by (simp add: setScrollTop_def Let_def split: option.splits)

lemma scrollDifference_cache [simp]:
  "cacheWithinTarget (lastCalculation h) \<Longrightarrow>
     cacheWithinTarget (lastCalculation (snd (scrollDifference h)))"
  by (simp add: scrollDifference_def split_beta)

lemma isNearBottom_cache [simp]:
  "cacheWithinTarget (lastCalculation h) \<Longrightarrow>
     cacheWithinTarget (lastCalculation (snd (isNearBottom h)))"
  by (simp add: isNearBottom_def split_beta)

lemma again_cache [simp]:
  "lastCalculation (snd (again l h)) = lastCalculation h"
  by (simp add: again_def next_def)

lemma springStep_cache [simp]:
  "cacheWithinTarget (lastCalculation h) \<Longrightarrow>
     cacheWithinTarget (lastCalculation (springStep sp d s h))"
  by (simp add: springStep_def Let_def split_beta)

lemma scrollToBottom_cache [simp]:
  "cacheWithinTarget (lastCalculation h) \<Longrightarrow>
     cacheWithinTarget (lastCalculation (snd (scrollToBottom now so h)))"
  by (cases so)
     (simp_all add: scrollToBottom_string scrollToBottom_unfold Let_def setIsAtBottom_def)

lemma frame_cache [simp]:
  "cacheWithinTarget (lastCalculation h) \<Longrightarrow>
     cacheWithinTarget (lastCalculation (snd (frame now tick l h)))"
  by (simp add: frame_def Let_def split_beta split: option.split behavior.split)

lemma handleScroll_cache [simp]:
  "cacheWithinTarget (lastCalculation h) \<Longrightarrow>
     cacheWithinTarget (lastCalculation (fst (handleScroll target h)))"
  by (simp add: handleScroll_def Let_def split_beta setIsNearBottom_def)

lemma handleScrollTimeout_cache [simp]:
  "cacheWithinTarget (lastCalculation h) \<Longrightarrow>
     cacheWithinTarget (lastCalculation (handleScrollTimeout cap h))"
  by (simp add: handleScrollTimeout_def Let_def split_beta setIsAtBottom_def setEscapedFromLock_def)

lemma wheelClimb_cache [simp]:
  "lastCalculation (wheelClimb deltaY path h) = lastCalculation h"
  by (induction path)
     (simp_all add: wheelEscape_def split_beta setIsAtBottom_def setEscapedFromLock_def)

lemma handleWheel_cache [simp]:
  "lastCalculation (handleWheel deltaY path h) = lastCalculation h"
  by (simp add: handleWheel_def split_beta setIsAtBottom_def setEscapedFromLock_def)

lemma documentModeEffect_cache [simp]:
  "cacheWithinTarget (lastCalculation h) \<Longrightarrow>
     cacheWithinTarget (lastCalculation (documentModeEffect h))"
  by (simp add: documentModeEffect_def Let_def split_beta setIsAtBottom_def setIsNearBottom_def)

lemma resizeCallback_cache [simp]:
  "cacheWithinTarget (lastCalculation h) \<Longrightarrow>
     cacheWithinTarget (lastCalculation (fst (resizeCallback now height h)))"
  by (simp add: resizeCallback_def Let_def split_beta setIsAtBottom_def setIsNearBottom_def
      setEscapedFromLock_def)












section \<open>The animator's frames\<close>

lemmas flat_defs = flatState_def flatElement_def instantOptions_def instantLoop_def

lemma mergeAnimations_instant_last:
  "fst (mergeAnimations (xs @ [SInstant]) st) = Instant"
proof -
  obtain r i where "mergeLoop (DEFAULT_SPRING_ANIMATION, False) xs = (r, i)"
    by (cases "mergeLoop (DEFAULT_SPRING_ANIMATION, False) xs")
  then show ?thesis
    by (simp add: mergeAnimations_def mergeLoop_append Let_def)
qed

lemma calc_plain:
  "targetScrollTopOption (currentOptions h) = None \<Longrightarrow>
     calculatedTargetScrollTop h = (targetScrollTop h, h)"
  by (auto simp: calculatedTargetScrollTop_def targetScrollTop_def getScrollElement_def Let_def
      split_beta)

lemma page_only:
  assumes "env h' = env h" and "mode h' = mode h"
  shows "targetScrollTop h' = targetScrollTop h"
    and "getScrollTop h' = getScrollTop h"
    and "isSelecting h' = isSelecting h"
  using assms
  by (simp_all add: targetScrollTop_def getScrollDimensions_def getScrollTop_def isSelecting_def
      cong: option.case_cong)


lemma scrollToBottom_page:
  "env (snd (scrollToBottom now (OptObject so) h)) = env h"
  "mode (snd (scrollToBottom now (OptObject so) h)) = mode h"
  "currentOptions (snd (scrollToBottom now (OptObject so) h)) = currentOptions h"
  "ignoreScrollToTop (snd (scrollToBottom now (OptObject so) h)) = ignoreScrollToTop h"
  by (simp_all add: scrollToBottom_unfold Let_def setIsAtBottom_def calc_fields)

text \<open>
  Claim C4 as stated has the offset become 499. With \<open>scrollHeight = clientHeight = 500\<close>
  the target is \<open>max(0, 500 - 1 - 500) = 0\<close>: the call writes no offset, and the first
  frame of its loop settles the promise with \<open>true\<close> while the offset is still 0.
\<close>

theorem instant_scroll_flat_counterexample:
  "getScrollDimensions flatState = (500, 500)
   \<and> getScrollTop flatState = 0
   \<and> targetScrollTop flatState = 0
   \<and> fst (scrollToBottom 0 (OptObject instantOptions) flatState) = Started instantLoop
   \<and> getScrollTop (snd (scrollToBottom 0 (OptObject instantOptions) flatState)) \<noteq> 499
   \<and> fst (frame 16 16 instantLoop (snd (scrollToBottom 0 (OptObject instantOptions) flatState)))
       = Resolved True
   \<and> getScrollTop (snd (frame 16 16 instantLoop
         (snd (scrollToBottom 0 (OptObject instantOptions) flatState)))) = 0"
  by (simp add: flat_defs eval_defs)

text \<open>
  Claim C4, as the code has it. For a scroll element with \<open>scrollHeight = clientHeight =
  500\<close> at offset 0, a content element, no custom resolver and no selection, the target
  is 0. \<open>scrollToBottom({animation: "instant"})\<close> starts a loop and changes nothing on the
  page; the loop's first frame, at any time not before the call, settles the promise
  with \<open>true\<close> and writes no offset: the offset stays 0.
\<close>

theorem instant_scroll_on_flat_content:
  assumes "mode h = ElementMode" and "scrollRef (env h) = Some e"
    and "scrollTop e = 0" and "scrollHeight e = 500" and "clientHeight e = 500"
    and "contentRef (env h) \<noteq> None"
    and "targetScrollTopOption (currentOptions h) = None"
    and "\<not> isSelecting h" and "now \<le> frameNow"
    and "fst (scrollToBottom now (OptObject instantOptions) h) = r"
    and "snd (scrollToBottom now (OptObject instantOptions) h) = h1"
  shows "targetScrollTop h = 0
     \<and> env h1 = env h \<and> ignoreScrollToTop h1 = ignoreScrollToTop h
     \<and> (\<exists>l. r = Started l
            \<and> fst (frame frameNow tick l h1) = Resolved True
            \<and> env (snd (frame frameNow tick l h1)) = env h
            \<and> ignoreScrollToTop (snd (frame frameNow tick l h1)) = ignoreScrollToTop h
            \<and> getScrollTop (snd (frame frameNow tick l h1)) = 0)"
proof -
  have t0: "targetScrollTop h = 0"
    using assms(1-6) by (simp add: targetScrollTop_def getScrollDimensions_def)
  have s0: "getScrollTop h = 0"
    using assms(1-3) by (simp add: getScrollTop_def)
  have inst: "fst (mergeAnimations [optionsSource (currentOptions h), optAnimation instantOptions]
                (animations h)) = Instant"
    using mergeAnimations_instant_last [of "[optionsSource (currentOptions h)]"]
    by (simp add: instantOptions_def defaultScrollOptions_def)
  have w: "optWait instantOptions \<noteq> WaitBool True"
    by (simp add: instantOptions_def defaultScrollOptions_def)
  define l where "l = \<lparr>loopBehavior = Instant, loopIgnoreEscapes = False, waitElapsed = now,
      durationElapsed = Some now, startTarget = 0, loopPromise = promiseCount h\<rparr>"
  have page: "env h1 = env h" "mode h1 = mode h" "currentOptions h1 = currentOptions h"
    "ignoreScrollToTop h1 = ignoreScrollToTop h"
    using assms(11) scrollToBottom_page [of now instantOptions h] by simp_all
  have atBottom: "isAtBottom h1"
    using assms(11) scrollToBottom_flags(1) [of now instantOptions h]
    by (simp add: instantOptions_def defaultScrollOptions_def)
  have geometry: "targetScrollTop x = 0 \<and> getScrollTop x = 0 \<and> \<not> isSelecting x"
    if "env x = env h" and "mode x = mode h" for x
    using page_only [OF that] t0 s0 assms(8) by simp
  have inst1: "fst (mergeAnimations [optionsSource (currentOptions h), SInstant] (animations h))
      = Instant"
    using inst by (simp add: instantOptions_def defaultScrollOptions_def)
  have started: "r = Started l"
    using assms(10) assms(7)
    by (simp add: scrollToBottom_unfold Let_def l_def instantOptions_def defaultScrollOptions_def
        setIsAtBottom_def calc_plain animationBehaviorIs_def waitMs_def calc_fields inst1 geometry)
  have plain: "\<And>x. currentOptions x = currentOptions h \<Longrightarrow>
      calculatedTargetScrollTop x = (targetScrollTop x, x)"
    using assms(7) by (simp add: calc_plain)
  have fr: "frame frameNow tick l h1 =
      (Resolved True,
       (case animation h1 of
          None \<Rightarrow> h1\<lparr>animation := Some \<lparr>behavior = Instant, ignoreEscapes = False,
                                promise = promiseCount h\<rparr>\<rparr>
        | Some a \<Rightarrow> h1)
       \<lparr>lastTick := (if animationBehaviorIs Instant
                         (case animation h1 of
                            None \<Rightarrow> h1\<lparr>animation := Some \<lparr>behavior = Instant,
                              ignoreEscapes = False, promise = promiseCount h\<rparr>\<rparr>
                          | Some a \<Rightarrow> h1)
                       then Some tick else lastTick h1),
         animation := None\<rparr>)"
    using atBottom assms(9) geometry [of h1] page
    by (cases "animation h1")
       (simp_all add: frame_def Let_def l_def plain geometry animationBehaviorIs_def)
  show ?thesis
    using t0 page started fr geometry
    by (cases "animation h1") (simp_all add: animationBehaviorIs_def)
qed

text \<open>The scenario itself, called at time 0 with the first frame at time 16.\<close>

theorem instant_scroll_on_flat_content_witness:
  "getScrollDimensions flatState = (500, 500)
   \<and> getScrollTop flatState = 0
   \<and> targetScrollTop flatState = 0
   \<and> fst (scrollToBottom 0 (OptObject instantOptions) flatState) = Started instantLoop
   \<and> fst (frame 16 16 instantLoop (snd (scrollToBottom 0 (OptObject instantOptions) flatState)))
       = Resolved True
   \<and> env (snd (frame 16 16 instantLoop (snd (scrollToBottom 0 (OptObject instantOptions) flatState))))
       = env flatState"
proof -
  have a: "mode flatState = ElementMode" and b: "scrollRef (env flatState) = Some flatElement"
    and c: "scrollTop flatElement = 0" "scrollHeight flatElement = 500"
      "clientHeight flatElement = 500"
    and d: "contentRef (env flatState) \<noteq> None"
    and e: "targetScrollTopOption (currentOptions flatState) = None"
    and f: "\<not> isSelecting flatState" and g: "(0::real) \<le> 16"
    and i: "fst (scrollToBottom 0 (OptObject instantOptions) flatState) = Started instantLoop"
    and j: "getScrollDimensions flatState = (500, 500)" "getScrollTop flatState = 0"
    by (simp_all add: flat_defs eval_defs)
  show ?thesis
    using instant_scroll_on_flat_content [OF a b c d e f g i refl, of 16] i j
    by auto
qed

text \<open>The value of the calculated target depends on the page, the options and the cache.\<close>

lemma calc_value_cong:
  assumes "env h' = env h" and "mode h' = mode h" and "currentOptions h' = currentOptions h"
    and "lastCalculation h' = lastCalculation h"
  shows "fst (calculatedTargetScrollTop h') = fst (calculatedTargetScrollTop h)"
  using assms page_only(1) [OF assms(1,2)]
  by (auto simp: calculatedTargetScrollTop_def getScrollElement_def Let_def
      split: option.splits)

lemma calc_again:
  "fst (calculatedTargetScrollTop (snd (calculatedTargetScrollTop h)))
     = fst (calculatedTargetScrollTop h)"
proof -
  have "targetScrollTop (h\<lparr>lastCalculation := c\<rparr>) = targetScrollTop h" for c
    by (rule page_only(1)) simp_all
  then show ?thesis
    by (auto simp: calculatedTargetScrollTop_def getScrollElement_def Let_def
        split: option.splits)
qed

lemma setScrollTop_page:
  assumes "env h' = env h" and "mode h' = mode h"
  shows "getScrollTop (setScrollTop v h') = getScrollTop (setScrollTop v h)"
  using assms
  by (simp add: setScrollTop_def getScrollTop_def Let_def split: option.splits)

lemma setScrollTop_fields [simp]:
  "velocity (setScrollTop v h) = velocity h"
  "accumulated (setScrollTop v h) = accumulated h"
  by (simp_all add: setScrollTop_def Let_def split: option.splits)

lemma springStep_result:
  fixes sp d s0 h
  defines "v \<equiv> (damping sp * velocity h
                  + stiffness sp * (fst (calculatedTargetScrollTop h) - getScrollTop h)) / mass sp"
  shows "velocity (springStep sp d s0 h) = v"
    and "getScrollTop (springStep sp d s0 h)
           = getScrollTop (setScrollTop (getScrollTop h + (accumulated h + v * d)) h)"
    and "accumulated (springStep sp d s0 h)
           = (if getScrollTop (springStep sp d s0 h) \<noteq> s0 then 0 else accumulated h + v * d)"
proof -
  let ?h1 = "snd (calculatedTargetScrollTop h)"
  have g1: "getScrollTop ?h1 = getScrollTop h"
    by (rule page_only(2)) (simp_all add: calc_fields)
  let ?h3 = "?h1\<lparr>velocity := v, accumulated := accumulated h + v * d\<rparr>"
  have g3: "getScrollTop ?h3 = getScrollTop h"
    using g1 page_only(2) [of ?h3 ?h1] by simp
  have w: "getScrollTop (setScrollTop x ?h3) = getScrollTop (setScrollTop x h)" for x
    by (rule setScrollTop_page) (simp_all add: calc_fields)
  have u: "springStep sp d s0 h =
      (let h4 = setScrollTop (getScrollTop h + (accumulated h + v * d)) ?h3
       in if getScrollTop h4 \<noteq> s0 then h4\<lparr>accumulated := 0\<rparr> else h4)"
    unfolding springStep_def scrollDifference_def Let_def split_beta
    using g1 g3 by (simp add: v_def calc_fields(5,6))
  have g5: "getScrollTop (x\<lparr>accumulated := 0\<rparr>) = getScrollTop x" for x :: hook
    by (rule page_only(2)) simp_all
  show "velocity (springStep sp d s0 h) = v"
    by (simp add: u Let_def)
  show "getScrollTop (springStep sp d s0 h)
           = getScrollTop (setScrollTop (getScrollTop h + (accumulated h + v * d)) h)"
    by (simp add: u Let_def g5 w)
  then show "accumulated (springStep sp d s0 h)
           = (if getScrollTop (springStep sp d s0 h) \<noteq> s0 then 0 else accumulated h + v * d)"
    by (simp add: u Let_def w)
qed

lemma again_fields:
  "velocity (snd (again l h)) = velocity h"
  "accumulated (snd (again l h)) = accumulated h"
  "getScrollTop (snd (again l h)) = getScrollTop h"
  "\<exists>l1. fst (again l h) = Continue l1"
  by (simp_all add: again_def next_def getScrollTop_def)

text \<open>
  Claim C3 as stated resets \<open>accumulated\<close> only when the write did not move the offset.
  The second frame of the loop on \<open>tallState\<close>, 16 ms after the first, moves the offset
  from 100 to 123.901696, and \<open>accumulated\<close> is 0 afterwards, not the 23.901696 that was
  added to the offset.
\<close>

theorem spring_frame_counterexample:
  "fst (frame 16 16 springLoop (snd (scrollToBottom 0 (OptObject defaultScrollOptions) tallState)))
     = Continue secondFrameLoop
   \<and> getScrollTop animatingState = 100 \<and> accumulated animatingState = 0
   \<and> velocity (snd (frame 32 32 secondFrameLoop animatingState)) = 15561 / 625
   \<and> getScrollTop (snd (frame 32 32 secondFrameLoop animatingState)) = 1935964 / 15625
   \<and> accumulated (snd (frame 32 32 secondFrameLoop animatingState)) = 0"
  by (simp add: animatingState_def springLoop_def secondFrameLoop_def eval_defs)

text \<open>
  Claim C3, as the code has it. In a frame of a loop with a spring behavior of non-zero
  mass, with \<open>isAtBottom\<close> set, the loop's behavior object on record (or no animation on
  record), no selection, the wait over and the offset short of
  \<open>min(startTarget, calculatedTargetScrollTop)\<close>: the velocity becomes
  \<open>(damping * velocity + stiffness * scrollDifference) / mass\<close>, \<open>accumulated\<close> grows by
  \<open>velocity * tickDelta\<close> where \<open>tickDelta\<close> is the time since the last tick over
  \<open>1000 / 60\<close>, the offset plus \<open>accumulated\<close> is written to the surface, and \<open>accumulated\<close>
  is reset to 0 exactly when the offset then read differs from the offset at the start of
  the frame; when the write did not move the offset, \<open>accumulated\<close> keeps its grown value.
\<close>

theorem spring_frame_resets_when_moved:
  fixes now tick l h sp r
  defines "tickDelta \<equiv> (tick - (case lastTick h of None \<Rightarrow> tick | Some t \<Rightarrow> t))
                          / SIXTY_FPS_INTERVAL_MS"
    and "v \<equiv> (damping sp * velocity h
               + stiffness sp * (fst (calculatedTargetScrollTop h) - getScrollTop h)) / mass sp"
  assumes "isAtBottom h"
    and "animation h = None \<or> animationBehaviorIs (Spring r) h"
    and "loopBehavior l = Spring r" and "heap (animations h) r = Some sp" and "mass sp \<noteq> 0"
    and "\<not> isSelecting h" and "waitElapsed l \<le> now"
    and "getScrollTop h < min (startTarget l) (fst (calculatedTargetScrollTop h))"
  shows "velocity (snd (frame now tick l h)) = v
     \<and> getScrollTop (snd (frame now tick l h))
         = getScrollTop (setScrollTop (getScrollTop h + (accumulated h + v * tickDelta)) h)
     \<and> accumulated (snd (frame now tick l h))
         = (if getScrollTop (snd (frame now tick l h)) \<noteq> getScrollTop h then 0
            else accumulated h + v * tickDelta)
     \<and> (\<exists>l1. fst (frame now tick l h) = Continue l1)"
proof -
  define h1 where "h1 = (case animation h of
      None \<Rightarrow> h\<lparr>animation := Some \<lparr>behavior = loopBehavior l,
                     ignoreEscapes = loopIgnoreEscapes l, promise = loopPromise l\<rparr>\<rparr>
    | Some a \<Rightarrow> h)"
  define h2 where "h2 = h1\<lparr>lastTick := Some tick\<rparr>"
  define h3 where "h3 = snd (calculatedTargetScrollTop h2)"
  have b1: "animationBehaviorIs (loopBehavior l) h1"
    using assms(4,5) by (auto simp: h1_def animationBehaviorIs_def split: option.splits)
  have same2: "env h2 = env h" "mode h2 = mode h" "currentOptions h2 = currentOptions h"
    "lastCalculation h2 = lastCalculation h" "velocity h2 = velocity h"
    "accumulated h2 = accumulated h" "animations h2 = animations h"
    "animation h2 = animation h1"
    by (simp_all add: h2_def h1_def split: option.splits)
  have c2: "fst (calculatedTargetScrollTop h2) = fst (calculatedTargetScrollTop h)"
    by (rule calc_value_cong) (simp_all add: same2)
  have g2: "getScrollTop h2 = getScrollTop h" "isSelecting h2 = isSelecting h"
    using page_only [OF same2(1,2)] by simp_all
  have same3: "env h3 = env h" "mode h3 = mode h" "velocity h3 = velocity h"
    "accumulated h3 = accumulated h" "animations h3 = animations h" "animation h3 = animation h1"
    by (simp_all add: h3_def calc_fields same2)
  have c3: "fst (calculatedTargetScrollTop h3) = fst (calculatedTargetScrollTop h)"
    unfolding h3_def calc_again by (rule c2)
  have g3: "getScrollTop h3 = getScrollTop h"
    using page_only(2) [OF same3(1,2)] .
  have b3: "animationBehaviorIs (loopBehavior l) h3"
    using b1 by (simp add: animationBehaviorIs_def same3)
  have fr: "frame now tick l h = again l (springStep sp tickDelta (getScrollTop h) h3)"
    unfolding frame_def Let_def split_beta
    using assms(3,5-10) b1 b3 c2 g2
    by (simp add: h1_def [symmetric] h2_def [symmetric] h3_def [symmetric] tickDelta_def same3)
  have w: "getScrollTop (setScrollTop x h3) = getScrollTop (setScrollTop x h)" for x
    by (rule setScrollTop_page) (simp_all add: same3)
  note sr = springStep_result [of sp tickDelta "getScrollTop h" h3, unfolded c3 g3 same3 w]
  show ?thesis
    unfolding fr again_fields(1-3) v_def
    using sr again_fields(4) by simp
qed

lemma animatingState_facts:
  "isAtBottom animatingState" "animationBehaviorIs (Spring 0) animatingState"
  "loopBehavior secondFrameLoop = Spring 0"
  "heap (animations animatingState) 0 = Some DEFAULT_SPRING_ANIMATION"
  "mass DEFAULT_SPRING_ANIMATION \<noteq> 0"
  "\<not> isSelecting animatingState" "waitElapsed secondFrameLoop \<le> 32"
  "getScrollTop animatingState
     < min (startTarget secondFrameLoop) (fst (calculatedTargetScrollTop animatingState))"
  "lastTick animatingState = Some 16" "velocity animatingState = 399 / 25"
  "accumulated animatingState = 0" "getScrollTop animatingState = 100"
  "fst (calculatedTargetScrollTop animatingState) = 499"
  by (simp_all add: animatingState_def springLoop_def secondFrameLoop_def eval_defs)

lemma wholePixelState_facts:
  "isAtBottom wholePixelState" "animationBehaviorIs (Spring 0) wholePixelState"
  "heap (animations wholePixelState) 0 = Some DEFAULT_SPRING_ANIMATION"
  "\<not> isSelecting wholePixelState" "waitElapsed secondFrameLoop \<le> 33 / 2"
  "getScrollTop wholePixelState
     < min (startTarget secondFrameLoop) (fst (calculatedTargetScrollTop wholePixelState))"
  "lastTick wholePixelState = Some 16" "velocity wholePixelState = 399 / 25"
  "accumulated wholePixelState = 0" "getScrollTop wholePixelState = 100"
  "fst (calculatedTargetScrollTop wholePixelState) = 499"
  by (simp_all add: wholePixelState_def animatingState_def springLoop_def secondFrameLoop_def
      eval_defs)

lemma wholePixel_write:
  "getScrollTop (setScrollTop (6296683 / 62500) wholePixelState) = 100"
  by (simp add: wholePixelState_def animatingState_def springLoop_def eval_defs)

lemma animating_write:
  "getScrollTop (setScrollTop (1935964 / 15625) animatingState) = 1935964 / 15625"
  by (simp add: animatingState_def springLoop_def eval_defs)

text \<open>
  The second frame on \<open>animatingState\<close> moves the offset and resets \<open>accumulated\<close>; on the
  surface of whole pixels, half a millisecond after the first frame, the write of
  100.746928 leaves the offset at 100 and \<open>accumulated\<close> keeps 0.746928.
\<close>

theorem spring_frame_resets_when_moved_witness:
  "isAtBottom animatingState \<and> animationBehaviorIs (Spring 0) animatingState
   \<and> heap (animations animatingState) 0 = Some DEFAULT_SPRING_ANIMATION
   \<and> mass DEFAULT_SPRING_ANIMATION \<noteq> 0
   \<and> velocity (snd (frame 32 32 secondFrameLoop animatingState)) = 15561 / 625
   \<and> getScrollTop (snd (frame 32 32 secondFrameLoop animatingState)) \<noteq> getScrollTop animatingState
   \<and> accumulated (snd (frame 32 32 secondFrameLoop animatingState)) = 0
   \<and> velocity (snd (frame (33 / 2) (33 / 2) secondFrameLoop wholePixelState)) = 15561 / 625
   \<and> getScrollTop (snd (frame (33 / 2) (33 / 2) secondFrameLoop wholePixelState))
       = getScrollTop wholePixelState
   \<and> accumulated (snd (frame (33 / 2) (33 / 2) secondFrameLoop wholePixelState)) = 46683 / 62500"
proof -
  note a = animatingState_facts
  note b = wholePixelState_facts
  have moved:
    "velocity (snd (frame 32 32 secondFrameLoop animatingState)) = 15561 / 625
     \<and> getScrollTop (snd (frame 32 32 secondFrameLoop animatingState)) = 1935964 / 15625
     \<and> accumulated (snd (frame 32 32 secondFrameLoop animatingState)) = 0"
    using spring_frame_resets_when_moved
      [OF a(1) disjI2 [OF a(2)] a(3) a(4) a(5) a(6) a(7) a(8), of 32]
    by (simp add: a(9-13) SIXTY_FPS_INTERVAL_MS_def DEFAULT_SPRING_ANIMATION_def animating_write)
  have kept:
    "velocity (snd (frame (33 / 2) (33 / 2) secondFrameLoop wholePixelState)) = 15561 / 625
     \<and> getScrollTop (snd (frame (33 / 2) (33 / 2) secondFrameLoop wholePixelState)) = 100
     \<and> accumulated (snd (frame (33 / 2) (33 / 2) secondFrameLoop wholePixelState)) = 46683 / 62500"
    using spring_frame_resets_when_moved
      [OF b(1) disjI2 [OF b(2)] a(3) b(3) a(5) b(4) b(5) b(6), of "33 / 2"]
    by (simp add: b(7-11) SIXTY_FPS_INTERVAL_MS_def DEFAULT_SPRING_ANIMATION_def wholePixel_write)
  show ?thesis
    using moved kept a(1,2,4,5) by (simp add: a(12) b(10))
qed

section \<open>Stopping an animation\<close>

lemmas resize_defs = resizeCallback_def nearState_def nearElement_def resizeLoop_def
  stoppedNear_def shrunkPage_def shrunkNear_def

text \<open>
  Claim C9 as stated has the promise settle with \<open>false\<close> within one frame of \<open>stop()\<close>.
  On \<open>nearState\<close> the first resize observation starts \<open>resizeLoop\<close>; after its first frame
  \<open>stop()\<close> is called, with the animation on record. Before the loop's next frame the
  content shrinks by 10 while the view is near the bottom: the resize callback sets
  \<open>isAtBottom\<close> again, and the next frame of the loop goes on instead of settling.
\<close>

theorem stopScroll_restuck_counterexample:
  "fst (snd (resizeCallback 0 1000 nearState)) = Some (Started resizeLoop)
   \<and> fst (frame 16 16 resizeLoop (fst (resizeCallback 0 1000 nearState)))
       = Continue (resizeLoop\<lparr>loopPromise := 1\<rparr>)
   \<and> animation stoppedNear = Some \<lparr>behavior = Spring 0, ignoreEscapes = False, promise = 0\<rparr>
   \<and> \<not> isAtBottom stoppedNear \<and> escapedFromLock stoppedNear
   \<and> isAtBottom shrunkNear
   \<and> fst (frame 32 32 (resizeLoop\<lparr>loopPromise := 1\<rparr>) shrunkNear)
       = Continue (resizeLoop\<lparr>loopPromise := 2\<rparr>)
   \<and> animation (snd (frame 32 32 (resizeLoop\<lparr>loopPromise := 1\<rparr>) shrunkNear))
       = Some \<lparr>behavior = Spring 0, ignoreEscapes = False, promise = 0\<rparr>"
  by (simp add: resize_defs eval_defs)

lemma frame_not_at_bottom:
  "\<not> isAtBottom h \<Longrightarrow> frame now tick l h = (Resolved False, h\<lparr>animation := None\<rparr>)"
  by (simp add: frame_def)

lemma wheelClimb_stopped:
  "\<not> isAtBottom h \<Longrightarrow> \<not> isAtBottom (wheelClimb deltaY path h)"
  by (induction path)
     (simp_all add: wheelEscape_def split_beta setIsAtBottom_def setEscapedFromLock_def)

lemma perform_stopped:
  assumes "keepsStopped ope" and "\<not> isAtBottom h"
  shows "\<not> isAtBottom (perform ope h)"
proof (cases ope)
  case (CallScrollToBottom now so)
  with assms show ?thesis
    by (cases so) (simp_all add: keepsStopped_def scrollToBottom_flags)
next
  case (WheelEvent deltaY path)
  with assms(2) show ?thesis
    by (simp add: handleWheel_def wheelClimb_stopped split_beta setIsAtBottom_def
        setEscapedFromLock_def)
qed (use assms in \<open>simp_all add: keepsStopped_def stopScroll_def setIsAtBottom_def frame_flags
      afterSettled_def clearLastCalculation_def handleScroll_flags resizeReset_def
      attachContent_def\<close>)

lemma run_stopped:
  "\<forall>ope \<in> set ops. keepsStopped ope \<Longrightarrow> \<not> isAtBottom h \<Longrightarrow> \<not> isAtBottom (run ops h)"
  by (induction ops arbitrary: h) (simp_all add: perform_stopped)

text \<open>
  Claim C9, as the code has it. \<open>stopScroll\<close> sets \<open>escapedFromLock\<close>, clears \<open>isAtBottom\<close>
  and leaves the animation on record. A frame of any loop that finds \<open>isAtBottom\<close> false
  clears the animation record and settles its promise with \<open>false\<close>: so does the frame
  that comes next after \<open>stop()\<close>, and the frame that comes after any operations that
  cannot set \<open>isAtBottom\<close>.
\<close>

theorem stopScroll_abandons_unless_restuck:
  "stopScroll h = h\<lparr>escapedFromLock := True, isAtBottom := False\<rparr>
   \<and> animation (stopScroll h) = animation h
   \<and> frame now tick l (stopScroll h) = (Resolved False, (stopScroll h)\<lparr>animation := None\<rparr>)
   \<and> (\<not> isAtBottom h1 \<longrightarrow> frame now tick l h1 = (Resolved False, h1\<lparr>animation := None\<rparr>))
   \<and> ((\<forall>ope \<in> set ops. keepsStopped ope) \<longrightarrow>
        frame now tick l (run ops (stopScroll h))
          = (Resolved False, (run ops (stopScroll h))\<lparr>animation := None\<rparr>))"
proof -
  have stopped: "\<not> isAtBottom (stopScroll h)"
    by (simp add: stopScroll_def setIsAtBottom_def)
  have "(\<forall>ope \<in> set ops. keepsStopped ope) \<longrightarrow> \<not> isAtBottom (run ops (stopScroll h))"
    using run_stopped [OF _ stopped] by blast
  then show ?thesis
    using frame_not_at_bottom [of h1 now tick l] frame_not_at_bottom [OF stopped, of now tick l]
      frame_not_at_bottom [of "run ops (stopScroll h)" now tick l]
    by (simp add: stopScroll_def setIsAtBottom_def setEscapedFromLock_def)
qed

text \<open>
  After \<open>stop()\<close> in \<open>animatingState\<close>, a wheel event and a scroll notification later, the
  loop's next frame settles with \<open>false\<close> and clears the record; so does the next frame
  in \<open>stoppedNear\<close>.
\<close>

theorem stopScroll_abandons_unless_restuck_witness:
  "keepsStopped (WheelEvent (- 1) [NodeElement 1])
   \<and> keepsStopped (ScrollEvent (Some (NodeElement 1)))
   \<and> animation (stopScroll animatingState)
       = Some \<lparr>behavior = Spring 0, ignoreEscapes = False, promise = 0\<rparr>
   \<and> fst (frame 32 32 secondFrameLoop
        (run [WheelEvent (- 1) [NodeElement 1], ScrollEvent (Some (NodeElement 1))]
           (stopScroll animatingState))) = Resolved False
   \<and> animation (snd (frame 32 32 secondFrameLoop
        (run [WheelEvent (- 1) [NodeElement 1], ScrollEvent (Some (NodeElement 1))]
           (stopScroll animatingState)))) = None
   \<and> \<not> isAtBottom stoppedNear
   \<and> fst (frame 32 32 (resizeLoop\<lparr>loopPromise := 1\<rparr>) stoppedNear) = Resolved False"
proof -
  have a: "keepsStopped (WheelEvent (- 1) [NodeElement 1])"
    and b: "keepsStopped (ScrollEvent (Some (NodeElement 1)))"
    by (simp_all add: keepsStopped_def)
  have c: "animation (stopScroll animatingState)
       = Some \<lparr>behavior = Spring 0, ignoreEscapes = False, promise = 0\<rparr>"
    using animatingState_facts(2)
    by (simp add: animatingState_def springLoop_def eval_defs)
  have d: "\<not> isAtBottom stoppedNear"
    by (simp add: stoppedNear_def stopScroll_def setIsAtBottom_def)
  have all: "\<forall>ope \<in> set [WheelEvent (- 1) [NodeElement 1], ScrollEvent (Some (NodeElement 1))].
      keepsStopped ope"
    using a b by simp
  note t = stopScroll_abandons_unless_restuck
    [of animatingState 32 32 secondFrameLoop stoppedNear
        "[WheelEvent (- 1) [NodeElement 1], ScrollEvent (Some (NodeElement 1))]"]
  have e: "frame 32 32 secondFrameLoop
        (run [WheelEvent (- 1) [NodeElement 1], ScrollEvent (Some (NodeElement 1))]
           (stopScroll animatingState))
      = (Resolved False,
         (run [WheelEvent (- 1) [NodeElement 1], ScrollEvent (Some (NodeElement 1))]
           (stopScroll animatingState))\<lparr>animation := None\<rparr>)"
    using t all by blast
  have f: "frame 32 32 (resizeLoop\<lparr>loopPromise := 1\<rparr>) stoppedNear
      = (Resolved False, stoppedNear\<lparr>animation := None\<rparr>)"
    using stopScroll_abandons_unless_restuck
      [of animatingState 32 32 "resizeLoop\<lparr>loopPromise := 1\<rparr>" stoppedNear "[]"] d
    by blast
  show ?thesis
    unfolding e f using a b c d by simp
qed

end
